theory Spec2Isabelle
  imports Main "HOL-Library.Sublist"
begin

section \<open>Scheduling and delivery engine of the reminder bot (bot.py)\<close>

text \<open>
  The development follows \<^verbatim>\<open>src/bot.py\<close>. Python library calls whose code is not
  part of the repository (\<^verbatim>\<open>json.loads\<close>, \<^verbatim>\<open>datetime.strptime\<close>, \<^verbatim>\<open>int\<close>,
  \<^verbatim>\<open>str.lower\<close>) are parameters of the functions that call them; the outcomes of the
  messaging gateway and of the Google Sheets manager are parameters of a firing.
\<close>

subsection \<open>Python values and records\<close>

text \<open>
  A stored record is a JSON object. Its values are JSON scalars; the one list-valued
  field of the bot's records, the \<^verbatim>\<open>options\<close> of a poll, is only handed to the gateway
  and is not read by the code modelled here. A dict is an association list in insertion
  order.
\<close>

datatype pyval = PNone | PBool bool | PInt int | PStr string

type_synonym dict = "(string \<times> pyval) list"

text \<open>\<^verbatim>\<open>d.get(k)\<close>: \<^verbatim>\<open>None\<close> when the key is absent.\<close>

definition dget :: "dict \<Rightarrow> string \<Rightarrow> pyval" where
  "dget d k = (case map_of d k of None \<Rightarrow> PNone | Some v \<Rightarrow> v)"

text \<open>\<^verbatim>\<open>d.get(k, dflt)\<close>: the default only replaces an absent key.\<close>

definition dget_default :: "dict \<Rightarrow> string \<Rightarrow> pyval \<Rightarrow> pyval" where
  "dget_default d k dflt = (case map_of d k of None \<Rightarrow> dflt | Some v \<Rightarrow> v)"

text \<open>\<^verbatim>\<open>d[k] = v\<close> on a copy: an existing key keeps its position, a new key goes last.\<close>

fun dset :: "dict \<Rightarrow> string \<Rightarrow> pyval \<Rightarrow> dict" where
  "dset [] k v = [(k, v)]"
| "dset ((k', v') # d) k v = (if k' = k then (k, v) # d else (k', v') # dset d k v)"

text \<open>Python's \<^verbatim>\<open>==\<close> on these values: \<^verbatim>\<open>True == 1\<close> and \<^verbatim>\<open>False == 0\<close> hold.\<close>

fun py_eq :: "pyval \<Rightarrow> pyval \<Rightarrow> bool" where
  "py_eq (PBool a) (PInt i) = (i = (if a then 1 else 0))"
| "py_eq (PInt i) (PBool a) = (i = (if a then 1 else 0))"
| "py_eq x y = (x = y)"

text \<open>\<^verbatim>\<open>str(v)\<close>, as an f-string applies it.\<close>

fun digits :: "nat \<Rightarrow> string" where
  "digits n = (if n < 10 then [char_of (48 + n)] else digits (n div 10) @ [char_of (48 + n mod 10)])"

declare digits.simps [simp del]

definition py_str :: "pyval \<Rightarrow> string" where
  "py_str v = (case v of
       PNone \<Rightarrow> ''None''
     | PBool b \<Rightarrow> (if b then ''True'' else ''False'')
     | PInt i \<Rightarrow> (if i < 0 then CHR ''-'' # digits (nat (- i)) else digits (nat i))
     | PStr s \<Rightarrow> s)"

subsection \<open>Local store: loading a collection\<close>

datatype exn = FileNotFoundError | JSONDecodeError | UnicodeDecodeError | RecursionError
  | KeyError | ValueError | TypeError | AttributeError | OtherError

text \<open>
  What \<^verbatim>\<open>open(...)\<close> and \<^verbatim>\<open>f.read()\<close> find: no file, a file that cannot be opened
  (a permission error), a file whose bytes are not UTF-8, or the text of the file as the
  list of its Unicode code points.
\<close>

datatype file_state = Missing | Unreadable | Undecodable | Text "nat list"

definition read_file :: "file_state \<Rightarrow> exn + nat list" where
  "read_file f =
     (case f of
        Missing \<Rightarrow> Inl FileNotFoundError
      | Unreadable \<Rightarrow> Inl OtherError
      | Undecodable \<Rightarrow> Inl UnicodeDecodeError
      | Text s \<Rightarrow> Inr s)"

text \<open>
  The code points that \<^verbatim>\<open>str.strip()\<close> removes: tab to carriage return, the separators
  28 to 31, the space, U+0085, U+00A0, U+1680, U+2000 to U+200A, U+2028, U+2029, U+202F,
  U+205F and U+3000.
\<close>

definition is_space :: "nat \<Rightarrow> bool" where
  "is_space n =
     ((9 \<le> n \<and> n \<le> 13) \<or> (28 \<le> n \<and> n \<le> 32) \<or> n = 133 \<or> n = 160 \<or> n = 5760 \<or>
      (8192 \<le> n \<and> n \<le> 8202) \<or> n = 8232 \<or> n = 8233 \<or> n = 8239 \<or> n = 8287 \<or>
      n = 12288)"

definition py_strip :: "nat list \<Rightarrow> nat list" where
  "py_strip s = rev (dropWhile is_space (rev (dropWhile is_space s)))"

text \<open>
  The body of the \<^verbatim>\<open>try\<close> shared by \<^verbatim>\<open>load_reminders\<close> and \<^verbatim>\<open>load_polls\<close>: read, strip,
  return \<^verbatim>\<open>[]\<close> for empty data, otherwise \<^verbatim>\<open>json.loads(data)\<close>. The parser is a
  parameter; it may raise \<^verbatim>\<open>JSONDecodeError\<close> or something else (\<^verbatim>\<open>RecursionError\<close> on
  deep nesting, a plain \<^verbatim>\<open>ValueError\<close> on a number of more than 4300 digits).
\<close>

definition load_body :: "(nat list \<Rightarrow> exn + dict list) \<Rightarrow> file_state \<Rightarrow> exn + dict list" where
  "load_body json_loads f =
     (case read_file f of
        Inl e \<Rightarrow> Inl e
      | Inr raw \<Rightarrow>
          (let data = py_strip raw
           in if data = [] then Inr [] else json_loads data))"

text \<open>\<^verbatim>\<open>load_reminders\<close>: \<^verbatim>\<open>except (FileNotFoundError, json.JSONDecodeError): return []\<close>.\<close>

definition load_reminders :: "(nat list \<Rightarrow> exn + dict list) \<Rightarrow> file_state \<Rightarrow> exn + dict list" where
  "load_reminders json_loads f =
     (case load_body json_loads f of
        Inl e \<Rightarrow> (if e = FileNotFoundError \<or> e = JSONDecodeError then Inr [] else Inl e)
      | Inr doc \<Rightarrow> Inr doc)"

text \<open>
  \<^verbatim>\<open>load_polls\<close>: the same two handlers, then \<^verbatim>\<open>except Exception: return []\<close>.
\<close>

definition load_polls :: "(nat list \<Rightarrow> exn + dict list) \<Rightarrow> file_state \<Rightarrow> exn + dict list" where
  "load_polls json_loads f =
     (case load_body json_loads f of
        Inl e \<Rightarrow> (if e = FileNotFoundError then Inr []
                  else if e = JSONDecodeError then Inr []
                  else Inr [])
      | Inr doc \<Rightarrow> Inr doc)"


subsection \<open>Python library functions taken as parameters\<close>

text \<open>
  \<^item> \<open>strptime_msk s\<close>: \<^verbatim>\<open>datetime.strptime(s, "%Y-%m-%d %H:%M")\<close> followed by
    \<^verbatim>\<open>MOSCOW_TZ.localize\<close>, as the instant it denotes in microseconds since the epoch;
    \<open>None\<close> is the \<^verbatim>\<open>ValueError\<close> of a string that does not match the format.
  \<^item> \<open>py_int s\<close>: \<^verbatim>\<open>int(s)\<close>; \<open>None\<close> is its \<^verbatim>\<open>ValueError\<close>.
  \<^item> \<open>str_lower s\<close>: \<^verbatim>\<open>s.lower()\<close>.
\<close>

record pylib =
  strptime_msk :: "string \<Rightarrow> int option"
  py_int :: "string \<Rightarrow> int option"
  str_lower :: "string \<Rightarrow> string"

text \<open>\<^verbatim>\<open>s.split(":")\<close>.\<close>

fun split_colon :: "string \<Rightarrow> string list" where
  "split_colon [] = [[]]"
| "split_colon (c # cs) =
     (if c = CHR '':'' then [] # split_colon cs
      else (case split_colon cs of [] \<Rightarrow> [[c]] | p # ps \<Rightarrow> (c # p) # ps))"

text \<open>
  \<^verbatim>\<open>h, m = map(int, time_str.split(":"))\<close>: exactly two parts, both integers, or a
  \<^verbatim>\<open>ValueError\<close>.
\<close>

definition parse_hm :: "pylib \<Rightarrow> string \<Rightarrow> (int \<times> int) option" where
  "parse_hm lib s =
     (case split_colon s of
        [a, b] \<Rightarrow>
          (case py_int lib a of
             None \<Rightarrow> None
           | Some h \<Rightarrow> (case py_int lib b of None \<Rightarrow> None | Some m \<Rightarrow> Some (h, m)))
      | _ \<Rightarrow> None)"

text \<open>\<^verbatim>\<open>dt_time(hour=h, minute=m)\<close> raises \<^verbatim>\<open>ValueError\<close> outside these ranges.\<close>

definition dt_time_ok :: "int \<Rightarrow> int \<Rightarrow> bool" where
  "dt_time_ok h m = (0 \<le> h \<and> h < 24 \<and> 0 \<le> m \<and> m < 60)"

text \<open>
  \<^verbatim>\<open>days_map\<close>: the seven Russian day names, Monday first, as their UTF-8 bytes.
\<close>

definition days_map :: "(string \<times> nat) list" where
  "days_map =
    [
     ([CHR 0xD0, CHR 0xBF, CHR 0xD0, CHR 0xBE, CHR 0xD0, CHR 0xBD, CHR 0xD0, CHR 0xB5,
       CHR 0xD0, CHR 0xB4, CHR 0xD0, CHR 0xB5, CHR 0xD0, CHR 0xBB, CHR 0xD1, CHR 0x8C,
       CHR 0xD0, CHR 0xBD, CHR 0xD0, CHR 0xB8, CHR 0xD0, CHR 0xBA], 0),
     ([CHR 0xD0, CHR 0xB2, CHR 0xD1, CHR 0x82, CHR 0xD0, CHR 0xBE, CHR 0xD1, CHR 0x80,
       CHR 0xD0, CHR 0xBD, CHR 0xD0, CHR 0xB8, CHR 0xD0, CHR 0xBA], 1),
     ([CHR 0xD1, CHR 0x81, CHR 0xD1, CHR 0x80, CHR 0xD0, CHR 0xB5, CHR 0xD0, CHR 0xB4,
       CHR 0xD0, CHR 0xB0], 2),
     ([CHR 0xD1, CHR 0x87, CHR 0xD0, CHR 0xB5, CHR 0xD1, CHR 0x82, CHR 0xD0, CHR 0xB2,
       CHR 0xD0, CHR 0xB5, CHR 0xD1, CHR 0x80, CHR 0xD0, CHR 0xB3], 3),
     ([CHR 0xD0, CHR 0xBF, CHR 0xD1, CHR 0x8F, CHR 0xD1, CHR 0x82, CHR 0xD0, CHR 0xBD,
       CHR 0xD0, CHR 0xB8, CHR 0xD1, CHR 0x86, CHR 0xD0, CHR 0xB0], 4),
     ([CHR 0xD1, CHR 0x81, CHR 0xD1, CHR 0x83, CHR 0xD0, CHR 0xB1, CHR 0xD0, CHR 0xB1,
       CHR 0xD0, CHR 0xBE, CHR 0xD1, CHR 0x82, CHR 0xD0, CHR 0xB0], 5),
     ([CHR 0xD0, CHR 0xB2, CHR 0xD0, CHR 0xBE, CHR 0xD1, CHR 0x81, CHR 0xD0, CHR 0xBA,
       CHR 0xD1, CHR 0x80, CHR 0xD0, CHR 0xB5, CHR 0xD1, CHR 0x81, CHR 0xD0, CHR 0xB5,
       CHR 0xD0, CHR 0xBD, CHR 0xD1, CHR 0x8C, CHR 0xD0, CHR 0xB5], 6)
    ]"

subsection \<open>Job queue\<close>

text \<open>
  A job of the \<^verbatim>\<open>JobQueue\<close>: its name, its callback, when it runs and the record
  snapshot passed as \<^verbatim>\<open>context\<close>. Instants are microseconds since the epoch; a daily
  job carries its UTC hour and minute and the weekdays it runs on. The queue is the list
  of live jobs in the order they were registered; \<^verbatim>\<open>job.schedule_removal()\<close> takes a
  job out of it.
\<close>

datatype callback = SendReminder | SendPoll | OtherCallback

datatype trigger = RunOnce int | RunDaily int int "nat list"

record job =
  jname :: string
  jcallback :: callback
  jtrigger :: trigger
  jcontext :: dict

type_synonym job_queue = "job list"

text \<open>
  \<^verbatim>\<open>for job in job_queue.jobs(): if hasattr(job, 'name') and job.name == n:
  job.schedule_removal()\<close>
\<close>

definition cancel_named :: "string \<Rightarrow> job_queue \<Rightarrow> job_queue" where
  "cancel_named n q = filter (\<lambda>j. jname j \<noteq> n) q"

text \<open>
  \<^verbatim>\<open>if hasattr(job, 'name') and job.name and job.name.startswith(p):
  job.schedule_removal()\<close>
\<close>

definition cancel_prefix :: "string \<Rightarrow> job_queue \<Rightarrow> job_queue" where
  "cancel_prefix p q = filter (\<lambda>j. \<not> (jname j \<noteq> [] \<and> prefix p (jname j))) q"

definition every_day :: "nat list" where
  "every_day = [0, 1, 2, 3, 4, 5, 6]"

definition hour_us :: int where
  "hour_us = 3600000000"

definition five_seconds_us :: int where
  "five_seconds_us = 5000000"

subsection \<open>Scheduler: reminders\<close>

definition reminder_job_name :: "dict \<Rightarrow> string" where
  "reminder_job_name r = ''reminder_'' @ py_str (dget r ''id'')"

text \<open>
  The part of \<^verbatim>\<open>schedule_reminder\<close> after the removal loop: the time handed to
  \<^verbatim>\<open>run_once\<close> or \<^verbatim>\<open>run_daily\<close>, no job, or the exception that the enclosing
  \<^verbatim>\<open>try\<close> logs. \<open>now\<close> is the reading of \<^verbatim>\<open>get_moscow_time()\<close>.
\<close>

definition plan_reminder :: "pylib \<Rightarrow> int \<Rightarrow> dict \<Rightarrow> exn + trigger option" where
  "plan_reminder lib now r =
     (case map_of r ''type'' of
        None \<Rightarrow> Inl KeyError
      | Some ty \<Rightarrow>
          if ty = PStr ''once'' then
            (case map_of r ''datetime'' of
               None \<Rightarrow> Inl KeyError
             | Some (PStr s) \<Rightarrow>
                 (case strptime_msk lib s of
                    None \<Rightarrow> Inl ValueError
                  | Some t \<Rightarrow>
                      if t > now
                      then Inr (Some (RunOnce t))
                      else Inr None)
             | Some _ \<Rightarrow> Inl TypeError)
          else if ty = PStr ''daily'' then
            (case map_of r ''time'' of
               None \<Rightarrow> Inl KeyError
             | Some (PStr s) \<Rightarrow>
                 (case parse_hm lib s of
                    None \<Rightarrow> Inl ValueError
                  | Some (h, m) \<Rightarrow>
                      if \<not> dt_time_ok h m then Inl ValueError
                      else if \<not> dt_time_ok ((h - 3) mod 24) m then Inl ValueError
                      else Inr (Some (RunDaily ((h - 3) mod 24) m every_day)))
             | Some _ \<Rightarrow> Inl AttributeError)
          else if ty = PStr ''weekly'' then
            (case map_of r ''day'' of
               None \<Rightarrow> Inl KeyError
             | Some (PStr d) \<Rightarrow>
                 (case map_of days_map (str_lower lib d) of
                    None \<Rightarrow> Inl KeyError
                  | Some weekday \<Rightarrow>
                      (case map_of r ''time'' of
                         None \<Rightarrow> Inl KeyError
                       | Some (PStr s) \<Rightarrow>
                           (case parse_hm lib s of
                              None \<Rightarrow> Inl ValueError
                            | Some (h, m) \<Rightarrow>
                                if \<not> dt_time_ok ((h - 3) mod 24) m then Inl ValueError
                                else Inr (Some (RunDaily ((h - 3) mod 24) m [weekday])))
                       | Some _ \<Rightarrow> Inl AttributeError))
             | Some _ \<Rightarrow> Inl AttributeError)
          else Inr None)"

text \<open>
  \<^verbatim>\<open>schedule_reminder\<close>: remove the jobs named \<^verbatim>\<open>reminder_<id>\<close>, then register what
  the record asks for. An exception is caught and logged after the removal has been done.
\<close>

definition schedule_reminder :: "pylib \<Rightarrow> int \<Rightarrow> dict \<Rightarrow> job_queue \<Rightarrow> job_queue" where
  "schedule_reminder lib now r q =
     (let q1 = cancel_named (reminder_job_name r) q
      in case plan_reminder lib now r of
           Inl e \<Rightarrow> q1
         | Inr None \<Rightarrow> q1
         | Inr (Some trig) \<Rightarrow>
             q1 @ [\<lparr>jname = reminder_job_name r, jcallback = SendReminder,
                    jtrigger = trig, jcontext = r\<rparr>])"

text \<open>
  \<^verbatim>\<open>schedule_all_reminders\<close>: every record that \<^verbatim>\<open>load_reminders()\<close> returned, in
  order. One clock reading stands for the whole pass.
\<close>

fun schedule_all_reminders :: "pylib \<Rightarrow> int \<Rightarrow> dict list \<Rightarrow> job_queue \<Rightarrow> job_queue" where
  "schedule_all_reminders lib now [] q = q"
| "schedule_all_reminders lib now (r # rs) q =
     schedule_all_reminders lib now rs (schedule_reminder lib now r q)"

definition reschedule_all_reminders :: "pylib \<Rightarrow> int \<Rightarrow> dict list \<Rightarrow> job_queue \<Rightarrow> job_queue" where
  "reschedule_all_reminders lib now rs q =
     schedule_all_reminders lib now rs (cancel_prefix ''reminder_'' q)"

subsection \<open>Scheduler: polls\<close>

text \<open>\<^verbatim>\<open>poll_id = poll.get('id', 'unknown')\<close>, as the f-strings print it.\<close>

definition poll_id_str :: "dict \<Rightarrow> string" where
  "poll_id_str p = py_str (dget_default p ''id'' (PStr ''unknown''))"

definition poll_job_name :: "dict \<Rightarrow> string" where
  "poll_job_name p = ''poll_'' @ poll_id_str p"

definition missed_job_name :: "dict \<Rightarrow> string" where
  "missed_job_name p = ''poll_'' @ poll_id_str p @ ''_missed''"

text \<open>
  \<^verbatim>\<open>h, m = map(int, time_str.split(":"))\<close> where \<^verbatim>\<open>time_str = poll.get(k, "")\<close>:
  a value that is not a string has no \<^verbatim>\<open>split\<close>.
\<close>

definition poll_hm :: "pylib \<Rightarrow> pyval \<Rightarrow> exn + (int \<times> int)" where
  "poll_hm lib v =
     (case v of
        PStr s \<Rightarrow> (case parse_hm lib s of None \<Rightarrow> Inl ValueError | Some hm \<Rightarrow> Inr hm)
      | _ \<Rightarrow> Inl AttributeError)"

text \<open>
  The part of \<^verbatim>\<open>schedule_poll\<close> after the removal loop: the job name and the time
  handed to \<^verbatim>\<open>run_once\<close> or \<^verbatim>\<open>run_daily\<close>, no job, or the exception that is logged.
  \<open>now\<close> stands for both clock readings of the function, \<^verbatim>\<open>get_moscow_time()\<close> and
  \<^verbatim>\<open>datetime.utcnow()\<close>.
\<close>

definition plan_poll :: "pylib \<Rightarrow> int \<Rightarrow> dict \<Rightarrow> exn + (string \<times> trigger) option" where
  "plan_poll lib now p =
     (case map_of p ''type'' of
        None \<Rightarrow> Inl KeyError
      | Some ty \<Rightarrow>
          if ty = PStr ''once'' \<or> ty = PStr ''one_time'' then
            (case dget_default p ''datetime'' (PStr []) of
               PStr s \<Rightarrow>
                 (case strptime_msk lib s of
                    None \<Rightarrow> Inl ValueError
                  | Some t \<Rightarrow>
                      if t > now
                      then Inr (Some (poll_job_name p, RunOnce t))
                      else if t \<le> now \<and> t - now \<ge> - hour_us
                      then Inr (Some (missed_job_name p, RunOnce (now + five_seconds_us)))
                      else Inr None)
             | _ \<Rightarrow> Inl TypeError)
          else if ty = PStr ''daily'' \<or> ty = PStr ''daily_poll'' then
            (case poll_hm lib (dget_default p ''time'' (PStr [])) of
               Inl e \<Rightarrow> Inl e
             | Inr (h, m) \<Rightarrow>
                 if \<not> dt_time_ok h m then Inl ValueError
                 else if \<not> dt_time_ok ((h - 3) mod 24) m then Inl ValueError
                 else Inr (Some (poll_job_name p, RunDaily ((h - 3) mod 24) m every_day)))
          else if ty = PStr ''weekly'' \<or> ty = PStr ''weekly_poll'' then
            (case dget_default p ''day'' (PStr []) of
               PStr d \<Rightarrow>
                 (case map_of days_map (str_lower lib d) of
                    None \<Rightarrow> Inl KeyError
                  | Some weekday \<Rightarrow>
                      (case poll_hm lib (dget_default p ''time'' (PStr [])) of
                         Inl e \<Rightarrow> Inl e
                       | Inr (h, m) \<Rightarrow>
                           if \<not> dt_time_ok ((h - 3) mod 24) m then Inl ValueError
                           else Inr (Some (poll_job_name p,
                                           RunDaily ((h - 3) mod 24) m [weekday]))))
             | _ \<Rightarrow> Inl AttributeError)
          else Inr None)"

text \<open>
  \<^verbatim>\<open>schedule_poll\<close>: remove the jobs named \<^verbatim>\<open>poll_<id>\<close>, then register what the
  record asks for.
\<close>

definition schedule_poll :: "pylib \<Rightarrow> int \<Rightarrow> dict \<Rightarrow> job_queue \<Rightarrow> job_queue" where
  "schedule_poll lib now p q =
     (let q1 = cancel_named (poll_job_name p) q
      in case plan_poll lib now p of
           Inl e \<Rightarrow> q1
         | Inr None \<Rightarrow> q1
         | Inr (Some (n, trig)) \<Rightarrow>
             q1 @ [\<lparr>jname = n, jcallback = SendPoll, jtrigger = trig, jcontext = p\<rparr>])"

text \<open>\<^verbatim>\<open>schedule_all_polls\<close>: only a poll whose \<^verbatim>\<open>status\<close> is \<^verbatim>\<open>"Active"\<close> is scheduled.\<close>

fun schedule_all_polls :: "pylib \<Rightarrow> int \<Rightarrow> dict list \<Rightarrow> job_queue \<Rightarrow> job_queue" where
  "schedule_all_polls lib now [] q = q"
| "schedule_all_polls lib now (p # ps) q =
     (if dget p ''status'' = PStr ''Active''
      then schedule_all_polls lib now ps (schedule_poll lib now p q)
      else schedule_all_polls lib now ps q)"

definition reschedule_all_polls :: "pylib \<Rightarrow> int \<Rightarrow> dict list \<Rightarrow> job_queue \<Rightarrow> job_queue" where
  "reschedule_all_polls lib now ps q =
     schedule_all_polls lib now ps (cancel_prefix ''poll_'' q)"

subsection \<open>Delivery engine\<close>

text \<open>
  The local state a firing reads and writes: \<^verbatim>\<open>subscribed_chats.json\<close> (\<open>None\<close> when the
  file is missing or is not valid JSON) and the two collections as \<^verbatim>\<open>load_reminders()\<close>
  and \<^verbatim>\<open>load_polls()\<close> return them.
\<close>

record world =
  chats_file :: "int list option"
  reminders_store :: "dict list"
  polls_store :: "dict list"

datatype fmt = Html | Plain | PollMsg

text \<open>
  What a firing meets outside the process:
  \<^item> \<open>gateway c f\<close>: the outcome of sending to chat \<open>c\<close> in format \<open>f\<close>; \<open>None\<close> is a
    delivery, \<open>Some e\<close> an exception whose text \<^verbatim>\<open>str(e)\<close> is \<open>e\<close>;
  \<^item> \<open>sheets_ready\<close>: \<^verbatim>\<open>SHEETS_AVAILABLE and sheets_manager and
    sheets_manager.is_initialized\<close>;
  \<^item> \<open>restore_chats\<close>: what \<^verbatim>\<open>sheets_manager.restore_subscribed_chats_file()\<close> does: it
    raises, it returns false, or it returns true and leaves the file as \<open>f\<close>;
  \<^item> \<open>sent_time\<close>: \<^verbatim>\<open>get_moscow_time().strftime("%Y-%m-%d %H:%M:%S")\<close> when the record is
    updated.
\<close>

datatype restore_outcome = RestoreRaises | RestoreFalse | RestoreTrue "int list option"

record firing_env =
  gateway :: "int \<Rightarrow> fmt \<Rightarrow> string option"
  sheets_ready :: bool
  restore_chats :: restore_outcome
  sent_time :: string

text \<open>\<^verbatim>\<open>sub in s\<close> on strings.\<close>

fun contains :: "string \<Rightarrow> string \<Rightarrow> bool" where
  "contains sub [] = (sub = [])"
| "contains sub (c # cs) = (prefix sub (c # cs) \<or> contains sub cs)"

text \<open>The four error texts that mark a recipient as gone for good.\<close>

definition is_blocked_error :: "string \<Rightarrow> bool" where
  "is_blocked_error e =
     (contains ''Forbidden: bot was blocked by the user'' e \<or>
      contains ''Forbidden: user is deactivated'' e \<or>
      contains ''Forbidden: the group chat was deleted'' e \<or>
      contains ''Bad Request: chat not found'' e)"

text \<open>
  \<^verbatim>\<open>ensure_subscribed_chats_file\<close>: a file with a non-empty list is fine; otherwise the
  Sheets manager is asked to restore it, and when that is impossible or answers false an
  empty list is written and the answer is false. An exception of the restore call is not
  caught here.
\<close>

definition ensure_subscribed_chats_file ::
  "firing_env \<Rightarrow> int list option \<Rightarrow> exn + (bool \<times> int list option)" where
  "ensure_subscribed_chats_file env file =
     (if (case file of Some cs \<Rightarrow> cs \<noteq> [] | None \<Rightarrow> False) then Inr (True, file)
      else if sheets_ready env then
        (case restore_chats env of
           RestoreRaises \<Rightarrow> Inl OtherError
         | RestoreFalse \<Rightarrow> Inr (False, Some [])
         | RestoreTrue restored \<Rightarrow> Inr (True, restored))
      else Inr (False, Some []))"

text \<open>
  The first block of \<^verbatim>\<open>send_reminder\<close> and \<^verbatim>\<open>send_poll\<close>: the list to iterate, or
  \<open>None\<close> when the function logs that nothing will be sent and returns (an exception of
  the restore ends the firing in the outer handler, with the same effect); with it the
  state of the file afterwards.
\<close>

definition load_chats :: "firing_env \<Rightarrow> int list option \<Rightarrow> int list option \<times> int list option" where
  "load_chats env file =
     (if (case file of Some cs \<Rightarrow> cs \<noteq> [] | None \<Rightarrow> False) then (file, file)
      else
        (case ensure_subscribed_chats_file env file of
           Inl e \<Rightarrow> (None, file)
         | Inr (True, file') \<Rightarrow> (file', file')
         | Inr (False, file') \<Rightarrow> (None, file')))"

text \<open>
  The counters and lists of the fan-out loop, and the log of delivery attempts made
  through the gateway.
\<close>

record tally =
  total_sent :: nat
  total_failed :: nat
  blocked_chats :: "int list"
  attempts :: "(int \<times> fmt) list"

definition tally0 :: tally where
  "tally0 = \<lparr>total_sent = 0, total_failed = 0, blocked_chats = [], attempts = []\<rparr>"

text \<open>One pass of the loop body of \<^verbatim>\<open>send_reminder\<close> for chat \<open>cid\<close>.\<close>

definition deliver_reminder :: "firing_env \<Rightarrow> int \<Rightarrow> tally \<Rightarrow> tally" where
  "deliver_reminder env cid t =
     (case gateway env cid Html of
        None \<Rightarrow> t\<lparr>total_sent := total_sent t + 1, attempts := attempts t @ [(cid, Html)]\<rparr>
      | Some e \<Rightarrow>
          if is_blocked_error e
          then t\<lparr>total_failed := total_failed t + 1, blocked_chats := blocked_chats t @ [cid],
                 attempts := attempts t @ [(cid, Html)]\<rparr>
          else
            (case gateway env cid Plain of
               None \<Rightarrow> t\<lparr>total_sent := total_sent t + 1,
                           attempts := attempts t @ [(cid, Html), (cid, Plain)]\<rparr>
             | Some e2 \<Rightarrow>
                 if is_blocked_error e2
                 then t\<lparr>total_failed := total_failed t + 1,
                        blocked_chats := blocked_chats t @ [cid],
                        attempts := attempts t @ [(cid, Html), (cid, Plain)]\<rparr>
                 else t\<lparr>total_failed := total_failed t + 1,
                        attempts := attempts t @ [(cid, Html), (cid, Plain)]\<rparr>))"

fun fanout_reminder :: "firing_env \<Rightarrow> int list \<Rightarrow> tally \<Rightarrow> tally" where
  "fanout_reminder env [] t = t"
| "fanout_reminder env (cid # cs) t = fanout_reminder env cs (deliver_reminder env cid t)"

text \<open>One pass of the loop body of \<^verbatim>\<open>send_poll\<close>: there is no second attempt.\<close>

definition deliver_poll :: "firing_env \<Rightarrow> int \<Rightarrow> tally \<Rightarrow> tally" where
  "deliver_poll env cid t =
     (case gateway env cid PollMsg of
        None \<Rightarrow> t\<lparr>total_sent := total_sent t + 1, attempts := attempts t @ [(cid, PollMsg)]\<rparr>
      | Some e \<Rightarrow>
          if is_blocked_error e
          then t\<lparr>total_failed := total_failed t + 1, blocked_chats := blocked_chats t @ [cid],
                 attempts := attempts t @ [(cid, PollMsg)]\<rparr>
          else t\<lparr>total_failed := total_failed t + 1, attempts := attempts t @ [(cid, PollMsg)]\<rparr>)"

fun fanout_poll :: "firing_env \<Rightarrow> int list \<Rightarrow> tally \<Rightarrow> tally" where
  "fanout_poll env [] t = t"
| "fanout_poll env (cid # cs) t = fanout_poll env cs (deliver_poll env cid t)"

text \<open>
  \<^verbatim>\<open>unsubscribe_user\<close> on the chats file: a chat that is in the list is taken out once
  and the list is saved; otherwise nothing is written.
\<close>

definition unsubscribe_user :: "int \<Rightarrow> int list option \<Rightarrow> int list option" where
  "unsubscribe_user cid file =
     (let chats = (case file of Some cs \<Rightarrow> cs | None \<Rightarrow> [])
      in if cid \<in> set chats then Some (remove1 cid chats) else file)"

text \<open>
  The removal of blocked chats after the loop of \<^verbatim>\<open>send_reminder\<close>: the filtered list is
  saved, then \<^verbatim>\<open>unsubscribe_user\<close> is called for every blocked chat.
\<close>

definition remove_blocked_reminder :: "int list \<Rightarrow> int list \<Rightarrow> int list option \<Rightarrow> int list option" where
  "remove_blocked_reminder chats blocked file =
     (if blocked \<noteq> []
      then foldl (\<lambda>f b. unsubscribe_user b f) (Some (filter (\<lambda>cid. cid \<notin> set blocked) chats)) blocked
      else file)"

definition remove_blocked_poll :: "int list \<Rightarrow> int list \<Rightarrow> int list option \<Rightarrow> int list option" where
  "remove_blocked_poll chats blocked file =
     (if blocked \<noteq> [] then Some (filter (\<lambda>cid. cid \<notin> set blocked) chats) else file)"

text \<open>
  The calls of \<^verbatim>\<open>sync_subscribed_chats_to_sheets\<close>, which push the subscriber list to the
  backup store. \<^verbatim>\<open>unsubscribe_user\<close> reaches its call only in the branch of a chat that is in
  the file, and only with an initialised Sheets manager; otherwise it returns
  \<^verbatim>\<open>NOT_SUBSCRIBED\<close>.
\<close>

definition unsubscribe_user_syncs :: "firing_env \<Rightarrow> int \<Rightarrow> int list option \<Rightarrow> bool" where
  "unsubscribe_user_syncs env cid file =
     (let chats = (case file of Some cs \<Rightarrow> cs | None \<Rightarrow> [])
      in cid \<in> set chats \<and> sheets_ready env)"

text \<open>
  The number of such calls made by the removal block of \<^verbatim>\<open>send_reminder\<close>, whose loop of
  \<^verbatim>\<open>unsubscribe_user\<close> calls (under the comment "update Google Sheets") runs after
  \<^verbatim>\<open>save_chats(updated_chats)\<close>, and by the removal block of \<^verbatim>\<open>send_poll\<close>, which calls the
  synchronisation itself.
\<close>

fun unsubscribe_all_syncs :: "firing_env \<Rightarrow> int list \<Rightarrow> int list option \<Rightarrow> nat" where
  "unsubscribe_all_syncs env [] file = 0"
| "unsubscribe_all_syncs env (b # bs) file =
     (if unsubscribe_user_syncs env b file then 1 else 0) +
     unsubscribe_all_syncs env bs (unsubscribe_user b file)"

definition syncs_reminder :: "firing_env \<Rightarrow> int list \<Rightarrow> int list \<Rightarrow> nat" where
  "syncs_reminder env chats blocked =
     (if blocked \<noteq> []
      then unsubscribe_all_syncs env blocked (Some (filter (\<lambda>cid. cid \<notin> set blocked) chats))
      else 0)"

definition syncs_poll :: "firing_env \<Rightarrow> int list \<Rightarrow> nat" where
  "syncs_poll env blocked = (if blocked \<noteq> [] \<and> sheets_ready env then 1 else 0)"

text \<open>\<^verbatim>\<open>[r for r in records if r.get("id") != record.get("id")]\<close>\<close>

definition drop_record :: "dict \<Rightarrow> dict list \<Rightarrow> dict list" where
  "drop_record record records = filter (\<lambda>r. \<not> py_eq (dget r ''id'') (dget record ''id'')) records"

text \<open>
  \<^verbatim>\<open>v[:50]\<close> is applied, outside any inner \<^verbatim>\<open>try\<close>, to the text of the record when the
  chat list is empty and to the question of a poll at the start: a value that is not a
  string raises \<^verbatim>\<open>TypeError\<close>, which ends the firing in the outer handler.
\<close>

definition sliceable :: "pyval \<Rightarrow> bool" where
  "sliceable v = (case v of PStr s \<Rightarrow> True | _ \<Rightarrow> False)"

text \<open>\<^verbatim>\<open>send_reminder\<close>. The result is the new local state and the tally of the loop.\<close>

definition send_reminder :: "firing_env \<Rightarrow> dict \<Rightarrow> world \<Rightarrow> world \<times> tally" where
  "send_reminder env reminder w =
     (case load_chats env (chats_file w) of
        (None, file) \<Rightarrow> (w\<lparr>chats_file := file\<rparr>, tally0)
      | (Some chats, file) \<Rightarrow>
          if chats = [] then
            (if \<not> sliceable (dget_default reminder ''text'' (PStr [])) then (w\<lparr>chats_file := file\<rparr>, tally0)
             else if dget reminder ''type'' = PStr ''once''
             then (w\<lparr>chats_file := file,
                     reminders_store := drop_record reminder (reminders_store w)\<rparr>, tally0)
             else (w\<lparr>chats_file := file\<rparr>, tally0))
          else
            (let t = fanout_reminder env chats tally0;
                 file' = remove_blocked_reminder chats (blocked_chats t) file
             in if dget reminder ''type'' = PStr ''once''
                then (w\<lparr>chats_file := file',
                        reminders_store := drop_record reminder (reminders_store w)\<rparr>, t)
                else (w\<lparr>chats_file := file'\<rparr>, t)))"

text \<open>
  \<^verbatim>\<open>for i, p in enumerate(polls): if p.get('id') == poll.get('id'): polls[i] =
  updated_poll; break\<close>
\<close>

fun replace_first :: "dict \<Rightarrow> dict \<Rightarrow> dict list \<Rightarrow> dict list" where
  "replace_first poll updated [] = []"
| "replace_first poll updated (p # ps) =
     (if py_eq (dget p ''id'') (dget poll ''id'') then updated # ps
      else p # replace_first poll updated ps)"

text \<open>\<^verbatim>\<open>updated_poll\<close>: a copy of the snapshot with the time and the summary of this firing.\<close>

definition updated_poll :: "firing_env \<Rightarrow> dict \<Rightarrow> tally \<Rightarrow> dict" where
  "updated_poll env poll t =
     dset (dset poll ''last_sent'' (PStr (sent_time env))) ''delivery_status''
       (PStr (''Sent to '' @ digits (total_sent t) @ '' chats, '' @ digits (total_failed t) @ '' failed''))"

definition is_once_poll :: "dict \<Rightarrow> bool" where
  "is_once_poll poll = (dget poll ''type'' = PStr ''once'' \<or> dget poll ''type'' = PStr ''one_time'')"

text \<open>\<^verbatim>\<open>send_poll\<close>.\<close>

definition send_poll :: "firing_env \<Rightarrow> dict \<Rightarrow> world \<Rightarrow> world \<times> tally" where
  "send_poll env poll w =
     (if poll = [] then (w, tally0)
      else if \<not> sliceable (dget_default poll ''question'' (PStr ''NO QUESTION'')) then (w, tally0)
      else
        (case load_chats env (chats_file w) of
           (None, file) \<Rightarrow> (w\<lparr>chats_file := file\<rparr>, tally0)
         | (Some chats, file) \<Rightarrow>
             if chats = [] then
               (if is_once_poll poll
                then (w\<lparr>chats_file := file, polls_store := drop_record poll (polls_store w)\<rparr>, tally0)
                else (w\<lparr>chats_file := file\<rparr>, tally0))
             else
               (let t = fanout_poll env chats tally0;
                    file' = remove_blocked_poll chats (blocked_chats t) file;
                    polls = replace_first poll (updated_poll env poll t) (polls_store w)
                in if is_once_poll poll
                   then (w\<lparr>chats_file := file', polls_store := drop_record poll polls\<rparr>, t)
                   else (w\<lparr>chats_file := file', polls_store := polls\<rparr>, t))))"

subsection \<open>Reconciliation\<close>

text \<open>
  The state of one collection in the backup store, as a restore meets it: the store
  cannot be reached, the restore reports failure, or the store answers with its active
  rows.
\<close>

datatype backup = Unreachable | Failing | Rows "dict list"

text \<open>
  Modelled from the spec: \<^verbatim>\<open>sheets_manager.restore_reminders_from_sheets()\<close> and
  \<^verbatim>\<open>sheets_manager.restore_polls_from_sheets()\<close> live in \<^verbatim>\<open>sheets_integration.py\<close>, which is
  not among the sources. The spec has the restore pull the authoritative set and fully
  overwrite the local collection (replace, not merge), and has the previous local contents
  stay when the backup store is unreachable. The result is the exception of an
  unreachable store, or the success flag that \<^verbatim>\<open>bot.py\<close> reads, with the local collection
  afterwards.
\<close>

definition restore_from_sheets :: "backup \<Rightarrow> dict list \<Rightarrow> exn + (bool \<times> dict list)" where
  "restore_from_sheets b local =
     (case b of
        Unreachable \<Rightarrow> Inl OtherError
      | Failing \<Rightarrow> Inr (False, local)
      | Rows rows \<Rightarrow> Inr (True, rows))"

definition restore_fails :: "backup \<Rightarrow> bool" where
  "restore_fails b = (case b of Rows rows \<Rightarrow> False | _ \<Rightarrow> True)"

text \<open>
  Modelled from the spec: \<^verbatim>\<open>sheets_manager.restore_subscribed_chats_file()\<close> lives in
  \<^verbatim>\<open>sheets_integration.py\<close> too. Its outcome is a parameter, and a restore of the chats
  file that raises or returns false is taken to leave the file as it was, as the spec has
  it for a backup store that cannot be reached.

  What a reconciliation meets outside the process: whether the Sheets manager is there
  and initialised, the outcome of restoring the chats file, and the two collections of the
  backup store.
\<close>

record recon_env =
  sheets_up :: bool
  chats_restore :: restore_outcome
  reminders_backup :: backup
  polls_backup :: backup

text \<open>
  \<^verbatim>\<open>restore_reminders\<close>, the handler of the \<^verbatim>\<open>/restore\<close> command: chats, reminders and
  polls are restored in this order, then each collection whose restore succeeded is
  rescheduled. An exception of a restore call ends the handler in its outer \<^verbatim>\<open>except\<close>.
\<close>

definition restore_reminders ::
  "pylib \<Rightarrow> int \<Rightarrow> recon_env \<Rightarrow> world \<times> job_queue \<Rightarrow> world \<times> job_queue" where
  "restore_reminders lib now env s =
     (case s of (w, q) \<Rightarrow>
        if \<not> sheets_up env then (w, q)
        else
          (let w0 = (case chats_restore env of RestoreTrue f \<Rightarrow> w\<lparr>chats_file := f\<rparr> | _ \<Rightarrow> w)
           in case restore_from_sheets (reminders_backup env) (reminders_store w0) of
                Inl e \<Rightarrow> (w0, q)
              | Inr (success, rs) \<Rightarrow>
                  (let w1 = w0\<lparr>reminders_store := rs\<rparr>
                   in case restore_from_sheets (polls_backup env) (polls_store w1) of
                        Inl e \<Rightarrow> (w1, q)
                      | Inr (polls_success, ps) \<Rightarrow>
                          (let w2 = w1\<lparr>polls_store := ps\<rparr>;
                               q1 = (if success
                                     then reschedule_all_reminders lib now (reminders_store w2) q
                                     else q);
                               q2 = (if polls_success
                                     then reschedule_all_polls lib now (polls_store w2) q1
                                     else q1)
                           in (w2, q2)))))"

text \<open>\<^verbatim>\<open>restore_polls\<close>, the handler of \<^verbatim>\<open>/restore_polls\<close>.\<close>

definition restore_polls ::
  "pylib \<Rightarrow> int \<Rightarrow> recon_env \<Rightarrow> world \<times> job_queue \<Rightarrow> world \<times> job_queue" where
  "restore_polls lib now env s =
     (case s of (w, q) \<Rightarrow>
        if \<not> sheets_up env then (w, q)
        else
          (case restore_from_sheets (polls_backup env) (polls_store w) of
             Inl e \<Rightarrow> (w, q)
           | Inr (polls_success, ps) \<Rightarrow>
               (let w1 = w\<lparr>polls_store := ps\<rparr>
                in if polls_success then (w1, reschedule_all_polls lib now (polls_store w1) q)
                   else (w1, q))))"

text \<open>
  \<^verbatim>\<open>auto_sync_reminders\<close> and \<^verbatim>\<open>auto_sync_polls\<close>, the periodic jobs: after a successful
  restore the collection is rescheduled when its length has changed.
\<close>

definition auto_sync_reminders ::
  "pylib \<Rightarrow> int \<Rightarrow> recon_env \<Rightarrow> world \<times> job_queue \<Rightarrow> world \<times> job_queue" where
  "auto_sync_reminders lib now env s =
     (case s of (w, q) \<Rightarrow>
        if \<not> sheets_up env then (w, q)
        else
          (let current_count = length (reminders_store w)
           in case restore_from_sheets (reminders_backup env) (reminders_store w) of
                Inl e \<Rightarrow> (w, q)
              | Inr (success, rs) \<Rightarrow>
                  (let w1 = w\<lparr>reminders_store := rs\<rparr>
                   in if success \<and> length (reminders_store w1) \<noteq> current_count
                      then (w1, reschedule_all_reminders lib now (reminders_store w1) q)
                      else (w1, q))))"

definition auto_sync_polls ::
  "pylib \<Rightarrow> int \<Rightarrow> recon_env \<Rightarrow> world \<times> job_queue \<Rightarrow> world \<times> job_queue" where
  "auto_sync_polls lib now env s =
     (case s of (w, q) \<Rightarrow>
        if \<not> sheets_up env then (w, q)
        else
          (let current_count = length (polls_store w)
           in case restore_from_sheets (polls_backup env) (polls_store w) of
                Inl e \<Rightarrow> (w, q)
              | Inr (success, ps) \<Rightarrow>
                  (let w1 = w\<lparr>polls_store := ps\<rparr>
                   in if success \<and> length (polls_store w1) \<noteq> current_count
                      then (w1, reschedule_all_polls lib now (polls_store w1) q)
                      else (w1, q))))"

text \<open>
  \<^verbatim>\<open>ensure_polls_file\<close>, run at startup: it always tries the restore; when that fails the
  local polls are used if there are any, and otherwise an empty collection is saved. The
  result is the pair the function returns and the collection afterwards.
\<close>

definition ensure_polls_file :: "recon_env \<Rightarrow> dict list \<Rightarrow> (bool \<times> nat) \<times> dict list" where
  "ensure_polls_file env polls =
     (let local_count = length polls
      in if sheets_up env then
           (case restore_from_sheets (polls_backup env) polls of
              Inr (success, ps) \<Rightarrow>
                if success then ((True, length ps), ps)
                else if local_count > 0 then ((True, local_count), ps)
                else ((False, 0), [])
            | Inl e \<Rightarrow>
                if local_count > 0 then ((True, local_count), polls)
                else ((False, 0), []))
         else if local_count > 0 then ((True, local_count), polls)
         else ((False, 0), []))"

text \<open>
  \<^verbatim>\<open>ensure_reminders_file\<close>: a non-empty local collection is kept without asking the
  backup store.
\<close>

definition ensure_reminders_file :: "recon_env \<Rightarrow> dict list \<Rightarrow> (bool \<times> nat) \<times> dict list" where
  "ensure_reminders_file env reminders =
     (if reminders \<noteq> [] then ((True, length reminders), reminders)
      else if sheets_up env then
        (case restore_from_sheets (reminders_backup env) reminders of
           Inr (success, rs) \<Rightarrow>
             if success then ((True, length rs), rs) else ((False, 0), [])
         | Inl e \<Rightarrow> ((False, 0), []))
      else ((False, 0), []))"

subsection \<open>Views of the queue used in the statements\<close>

text \<open>What \<^verbatim>\<open>schedule_reminder\<close> adds to the queue: one job or none.\<close>

definition new_reminder_jobs :: "pylib \<Rightarrow> int \<Rightarrow> dict \<Rightarrow> job list" where
  "new_reminder_jobs lib now r =
     (case plan_reminder lib now r of
        Inr (Some trig) \<Rightarrow> [\<lparr>jname = reminder_job_name r, jcallback = SendReminder,
                               jtrigger = trig, jcontext = r\<rparr>]
      | _ \<Rightarrow> [])"

text \<open>What \<^verbatim>\<open>schedule_poll\<close> adds to the queue: one job or none.\<close>

definition new_poll_jobs :: "pylib \<Rightarrow> int \<Rightarrow> dict \<Rightarrow> job list" where
  "new_poll_jobs lib now p =
     (case plan_poll lib now p of
        Inr (Some (n, trig)) \<Rightarrow> [\<lparr>jname = n, jcallback = SendPoll, jtrigger = trig, jcontext = p\<rparr>]
      | _ \<Rightarrow> [])"

text \<open>
  The jobs of a collection, as \<^verbatim>\<open>check_active_jobs\<close> and the reschedule functions tell
  them: by the prefix of the name.
\<close>

definition rjobs :: "job_queue \<Rightarrow> job_queue" where
  "rjobs q = filter (\<lambda>j. prefix ''reminder_'' (jname j)) q"

definition pjobs :: "job_queue \<Rightarrow> job_queue" where
  "pjobs q = filter (\<lambda>j. prefix ''poll_'' (jname j)) q"

subsection \<open>Example data\<close>

text \<open>
  A parser for the examples. It accepts the text \<^verbatim>\<open>[]\<close> (code points 91, 93); on a
  thousand or more opening brackets and nothing else it raises \<^verbatim>\<open>RecursionError\<close>, as
  \<^verbatim>\<open>json.loads\<close> does under the default recursion limit; it rejects every other text
  with \<^verbatim>\<open>JSONDecodeError\<close>.
\<close>

definition json_loads_example :: "nat list \<Rightarrow> exn + dict list" where
  "json_loads_example s =
     (if s = [91, 93] then Inr []
      else if 1000 \<le> length s \<and> list_all (\<lambda>c. c = 91) s then Inl RecursionError
      else Inl JSONDecodeError)"

text \<open>
  Library functions for the examples. \<open>py_int_example\<close> reads a plain string of decimal
  digits, on which it agrees with \<^verbatim>\<open>int\<close>; \<open>strptime_example\<close> knows one date,
  2024-01-01 12:00 Moscow time, which is 09:00 UTC, 1704099600 seconds after the epoch;
  the strings of the examples are already lower case.
\<close>

definition py_int_example :: "string \<Rightarrow> int option" where
  "py_int_example s =
     (if s \<noteq> [] \<and> list_all (\<lambda>c. 48 \<le> (of_char c :: nat) \<and> (of_char c :: nat) \<le> 57) s
      then Some (foldl (\<lambda>a c. 10 * a + (int (of_char c) - 48)) 0 s)
      else None)"

definition strptime_example :: "string \<Rightarrow> int option" where
  "strptime_example s = (if s = ''2024-01-01 12:00'' then Some 1704099600000000 else None)"

definition lib_example :: pylib where
  "lib_example = \<lparr>strptime_msk = strptime_example, py_int = py_int_example, str_lower = (\<lambda>s. s)\<rparr>"

text \<open>The clock of the examples: 12:30 Moscow time on the same day.\<close>

definition now_example :: int where
  "now_example = 1704101400000000"

definition reminder_once_example :: dict where
  "reminder_once_example =
     [(''id'', PStr ''1''), (''type'', PStr ''once''), (''datetime'', PStr ''2024-01-01 12:00''),
      (''text'', PStr ''X'')]"

definition poll_once_example :: dict where
  "poll_once_example =
     [(''id'', PStr ''1''), (''question'', PStr ''Q''), (''datetime'', PStr ''2024-01-01 12:00''),
      (''type'', PStr ''once''), (''status'', PStr ''Active''), (''last_sent'', PNone)]"

definition reminder_deleted_example :: dict where
  "reminder_deleted_example =
     [(''id'', PStr ''2''), (''type'', PStr ''daily''), (''time'', PStr ''09:30''),
      (''text'', PStr ''Y''), (''status'', PStr ''Deleted'')]"

definition poll_deleted_example :: dict where
  "poll_deleted_example =
     [(''id'', PStr ''3''), (''question'', PStr ''Q''), (''time'', PStr ''09:30''),
      (''type'', PStr ''daily''), (''status'', PStr ''Deleted''), (''last_sent'', PNone)]"

definition poll_daily_example :: dict where
  "poll_daily_example =
     [(''id'', PStr ''4''), (''question'', PStr ''Q''), (''time'', PStr ''09:30''),
      (''type'', PStr ''daily''), (''status'', PStr ''Active''), (''last_sent'', PNone)]"

text \<open>A queue holding a job of another kind and one stale job of each collection.\<close>

definition queue_example :: job_queue where
  "queue_example =
     [\<lparr>jname = ''ping_self'', jcallback = OtherCallback, jtrigger = RunOnce 0, jcontext = []\<rparr>,
      \<lparr>jname = ''reminder_2'', jcallback = SendReminder, jtrigger = RunDaily 5 0 every_day,
        jcontext = reminder_deleted_example\<rparr>,
      \<lparr>jname = ''poll_9'', jcallback = SendPoll, jtrigger = RunDaily 5 0 every_day,
        jcontext = poll_deleted_example\<rparr>]"

text \<open>A poll without a status field.\<close>

definition poll_nostatus_example :: dict where
  "poll_nostatus_example =
     [(''id'', PStr ''5''), (''question'', PStr ''Q''), (''time'', PStr ''09:30''),
      (''type'', PStr ''daily'')]"

text \<open>
  Environments of a firing: a gateway that delivers everything with no Sheets manager;
  the same with a Sheets manager whose restore fails; and one where chat 7 has blocked the
  bot while the backup still lists it.
\<close>

definition env_offline :: firing_env where
  "env_offline = \<lparr>gateway = (\<lambda>c f. None), sheets_ready = False, restore_chats = RestoreFalse,
                   sent_time = ''2024-01-01 12:30:05''\<rparr>"

definition env_backup_empty :: firing_env where
  "env_backup_empty = \<lparr>gateway = (\<lambda>c f. None), sheets_ready = True, restore_chats = RestoreFalse,
                        sent_time = ''2024-01-01 12:30:05''\<rparr>"

definition env_blocked :: firing_env where
  "env_blocked =
     \<lparr>gateway = (\<lambda>c f. if c = 7 then Some ''Forbidden: bot was blocked by the user'' else None),
      sheets_ready = True, restore_chats = RestoreTrue (Some [7]),
      sent_time = ''2024-01-01 12:30:05''\<rparr>"

definition reminder_daily_example :: dict where
  "reminder_daily_example =
     [(''id'', PStr ''6''), (''type'', PStr ''daily''), (''time'', PStr ''09:30''),
      (''text'', PStr ''Z'')]"

text \<open>A local state with two subscribers.\<close>

definition world_example :: world where
  "world_example = \<lparr>chats_file = Some [7, 8], reminders_store = [reminder_daily_example],
                     polls_store = [poll_daily_example]\<rparr>"

text \<open>A reconciliation in which the reminders restore fails and the polls restore succeeds.\<close>

definition env_partial :: recon_env where
  "env_partial = \<lparr>sheets_up = True, chats_restore = RestoreFalse, reminders_backup = Failing,
                   polls_backup = Rows [poll_daily_example]\<rparr>"

section \<open>Properties\<close>

subsection \<open>Loading\<close>

lemma load_reminders_valid:
  "py_strip s \<noteq> [] \<Longrightarrow> json_loads (py_strip s) = Inr doc \<Longrightarrow>
   load_reminders json_loads (Text s) = Inr doc"
  by (simp add: load_reminders_def load_body_def read_file_def)

text \<open>
  For a missing file, for a file whose text is empty after stripping, and for a file whose
  text the parser rejects with \<^verbatim>\<open>JSONDecodeError\<close>, both loaders return the empty list.
\<close>

lemma load_empty_list_cases:
  "load_reminders json_loads Missing = Inr [] \<and> load_polls json_loads Missing = Inr [] \<and>
   (py_strip s = [] \<longrightarrow>
      load_reminders json_loads (Text s) = Inr [] \<and> load_polls json_loads (Text s) = Inr []) \<and>
   (json_loads (py_strip t) = Inl JSONDecodeError \<longrightarrow>
      load_reminders json_loads (Text t) = Inr [] \<and> load_polls json_loads (Text t) = Inr [])"
  by (simp add: load_reminders_def load_polls_def load_body_def read_file_def Let_def)

text \<open>\<^verbatim>\<open>load_polls\<close> returns a list whatever happens; \<^verbatim>\<open>load_reminders\<close> does not.\<close>

lemma load_polls_total: "\<exists>doc. load_polls json_loads f = Inr doc"
  by (simp add: load_polls_def split: sum.split)

lemma py_strip_unchanged:
  assumes "s \<noteq> []" and "\<not> is_space (hd s)" and "\<not> is_space (last s)"
  shows "py_strip s = s"
proof -
  have "dropWhile is_space s = s"
    using assms(2) by (simp add: dropWhile_eq_self_iff)
  moreover have "dropWhile is_space (rev s) = rev s"
    using assms(1,3) by (simp add: dropWhile_eq_self_iff hd_rev)
  ultimately show ?thesis by (simp add: py_strip_def)
qed

lemma py_strip_examples:
  "py_strip [32, 10] = []"
  "py_strip [160, 91, 93, 10] = [91, 93]"
  "py_strip [123, 111, 111, 112, 115] = [123, 111, 111, 112, 115]"
  "py_strip (replicate 1000 91) = replicate 1000 91"
proof -
  show "py_strip [32, 10] = []" "py_strip [160, 91, 93, 10] = [91, 93]"
    "py_strip [123, 111, 111, 112, 115] = [123, 111, 111, 112, 115]"
    by (simp_all add: py_strip_def is_space_def)
  show "py_strip (replicate 1000 91) = replicate 1000 91"
    by (rule py_strip_unchanged) (simp_all add: is_space_def)
qed

lemma json_loads_example_deep: "json_loads_example (replicate 1000 91) = Inl RecursionError"
proof -
  have "length (replicate 1000 (91::nat)) \<noteq> length [91, 93::nat]" by simp
  then have "replicate 1000 (91::nat) \<noteq> [91, 93]" by metis
  then show ?thesis by (simp add: json_loads_example_def list_all_iff)
qed

lemma load_empty_list_examples:
  "load_reminders json_loads_example (Text [32, 10]) = Inr []"
  "load_reminders json_loads_example (Text [160, 91, 93, 10]) = Inr []"
  "load_reminders json_loads_example (Text [123, 111, 111, 112, 115]) = Inr []"
  by (simp_all add: load_reminders_def load_body_def read_file_def py_strip_examples
      json_loads_example_def)

text \<open>
  C10. The loaders are not both total on syntactically invalid JSON. A file of a thousand
  opening brackets makes \<^verbatim>\<open>json.loads\<close> raise \<^verbatim>\<open>RecursionError\<close>, and a file that is
  not UTF-8 makes the read raise \<^verbatim>\<open>UnicodeDecodeError\<close>; neither is one of the two
  exceptions \<^verbatim>\<open>load_reminders\<close> catches, so it raises, while \<^verbatim>\<open>load_polls\<close> returns the
  empty list on the same files.
\<close>

theorem load_reminders_raises_on_invalid_json:
  "load_reminders json_loads_example (Text (replicate 1000 91)) = Inl RecursionError \<and>
   load_polls json_loads_example (Text (replicate 1000 91)) = Inr [] \<and>
   load_reminders json_loads_example Undecodable = Inl UnicodeDecodeError \<and>
   load_polls json_loads_example Undecodable = Inr []"
  by (simp add: load_reminders_def load_polls_def load_body_def read_file_def
      py_strip_examples json_loads_example_deep)

subsection \<open>Scheduler\<close>

lemma schedule_reminder_eq:
  "schedule_reminder lib now r q = cancel_named (reminder_job_name r) q @ new_reminder_jobs lib now r"
  by (simp add: schedule_reminder_def new_reminder_jobs_def Let_def split: sum.split option.split)

lemma schedule_poll_eq:
  "schedule_poll lib now p q = cancel_named (poll_job_name p) q @ new_poll_jobs lib now p"
  by (simp add: schedule_poll_def new_poll_jobs_def Let_def split: sum.split option.split prod.split)

lemma new_reminder_jobs_shape:
  "j \<in> set (new_reminder_jobs lib now r) \<Longrightarrow>
   jname j = reminder_job_name r \<and> jcontext j = r \<and> jcallback j = SendReminder"
  by (auto simp: new_reminder_jobs_def split: sum.splits option.splits)

lemma new_reminder_jobs_length: "length (new_reminder_jobs lib now r) \<le> 1"
  by (simp add: new_reminder_jobs_def split: sum.split option.split)

lemma plan_poll_name:
  "case plan_poll lib now p of
     Inr (Some (n, trig)) \<Rightarrow> n = poll_job_name p \<or> n = missed_job_name p
   | _ \<Rightarrow> True"
  by (simp add: plan_poll_def split: option.split pyval.split prod.split sum.split)

lemma new_poll_jobs_shape:
  "j \<in> set (new_poll_jobs lib now p) \<Longrightarrow>
   (jname j = poll_job_name p \<or> jname j = missed_job_name p) \<and> jcontext j = p \<and> jcallback j = SendPoll"
  using plan_poll_name [where lib=lib and now=now and p=p]
  by (auto simp: new_poll_jobs_def split: sum.splits option.splits prod.splits)

lemma new_poll_jobs_length: "length (new_poll_jobs lib now p) \<le> 1"
  by (simp add: new_poll_jobs_def split: sum.split option.split prod.split)

lemma reminder_name_prefix: "prefix ''reminder_'' (reminder_job_name r)"
  by (simp add: reminder_job_name_def)

lemma poll_name_prefix: "prefix ''poll_'' (poll_job_name p)" "prefix ''poll_'' (missed_job_name p)"
  by (simp_all add: poll_job_name_def missed_job_name_def)

lemma new_reminder_jobs_prefix: "j \<in> set (new_reminder_jobs lib now r) \<Longrightarrow> prefix ''reminder_'' (jname j)"
  using new_reminder_jobs_shape [of j lib now r] reminder_name_prefix [of r] by simp

lemma new_poll_jobs_prefix: "j \<in> set (new_poll_jobs lib now p) \<Longrightarrow> prefix ''poll_'' (jname j)"
  using new_poll_jobs_shape [of j lib now p] poll_name_prefix [of p] by auto

lemma cancel_prefix_cancel_named:
  "prefix pre n \<Longrightarrow> pre \<noteq> [] \<Longrightarrow> cancel_prefix pre (cancel_named n q) = cancel_prefix pre q"
  by (induction q) (auto simp: cancel_prefix_def cancel_named_def)

lemma cancel_prefix_append: "cancel_prefix pre (a @ b) = cancel_prefix pre a @ cancel_prefix pre b"
  by (simp add: cancel_prefix_def)

lemma cancel_prefix_all: "(\<And>j. j \<in> set js \<Longrightarrow> prefix pre (jname j)) \<Longrightarrow> pre \<noteq> [] \<Longrightarrow> cancel_prefix pre js = []"
  by (force simp: cancel_prefix_def filter_empty_conv)

lemma cancel_prefix_idem: "cancel_prefix pre (cancel_prefix pre q) = cancel_prefix pre q"
  by (simp add: cancel_prefix_def)

lemma cancel_prefix_schedule_reminder:
  "cancel_prefix ''reminder_'' (schedule_reminder lib now r q) = cancel_prefix ''reminder_'' q"
proof -
  have "cancel_prefix ''reminder_'' (new_reminder_jobs lib now r) = []"
    by (rule cancel_prefix_all) (auto dest: new_reminder_jobs_prefix)
  then show ?thesis
    by (simp add: schedule_reminder_eq cancel_prefix_append cancel_prefix_cancel_named reminder_name_prefix)
qed

lemma cancel_prefix_schedule_poll:
  "cancel_prefix ''poll_'' (schedule_poll lib now p q) = cancel_prefix ''poll_'' q"
proof -
  have "cancel_prefix ''poll_'' (new_poll_jobs lib now p) = []"
    by (rule cancel_prefix_all) (auto dest: new_poll_jobs_prefix)
  then show ?thesis
    by (simp add: schedule_poll_eq cancel_prefix_append cancel_prefix_cancel_named poll_name_prefix)
qed

lemma cancel_prefix_schedule_all_reminders:
  "cancel_prefix ''reminder_'' (schedule_all_reminders lib now rs q) = cancel_prefix ''reminder_'' q"
  by (induction rs arbitrary: q) (simp_all add: cancel_prefix_schedule_reminder)

lemma cancel_prefix_schedule_all_polls:
  "cancel_prefix ''poll_'' (schedule_all_polls lib now ps q) = cancel_prefix ''poll_'' q"
  by (induction ps arbitrary: q) (simp_all add: cancel_prefix_schedule_poll)

lemma reschedule_all_reminders_again:
  "reschedule_all_reminders lib now2 rs2 (reschedule_all_reminders lib now1 rs1 q) =
   reschedule_all_reminders lib now2 rs2 q"
  by (simp add: reschedule_all_reminders_def cancel_prefix_schedule_all_reminders cancel_prefix_idem)

lemma reschedule_all_polls_again:
  "reschedule_all_polls lib now2 ps2 (reschedule_all_polls lib now1 ps1 q) =
   reschedule_all_polls lib now2 ps2 q"
  by (simp add: reschedule_all_polls_def cancel_prefix_schedule_all_polls cancel_prefix_idem)

text \<open>
  The records behind the jobs of a collection, in queue order, are a subsequence of the
  records scheduled so far: a record has at most one job of its own.
\<close>

lemma rjobs_append: "rjobs (a @ b) = rjobs a @ rjobs b"
  by (simp add: rjobs_def)

lemma pjobs_append: "pjobs (a @ b) = pjobs a @ pjobs b"
  by (simp add: pjobs_def)

lemma rjobs_cancel_named: "rjobs (cancel_named n q) = cancel_named n (rjobs q)"
  by (induction q) (auto simp: rjobs_def cancel_named_def)

lemma pjobs_cancel_named: "pjobs (cancel_named n q) = cancel_named n (pjobs q)"
  by (induction q) (auto simp: pjobs_def cancel_named_def)

lemma rjobs_new: "rjobs (new_reminder_jobs lib now r) = new_reminder_jobs lib now r"
  unfolding rjobs_def by (rule filter_True) (auto dest: new_reminder_jobs_prefix)

lemma pjobs_new: "pjobs (new_poll_jobs lib now p) = new_poll_jobs lib now p"
  unfolding pjobs_def by (rule filter_True) (auto dest: new_poll_jobs_prefix)

lemma rjobs_cancel_prefix: "rjobs (cancel_prefix ''reminder_'' q) = []"
  by (induction q) (auto simp: rjobs_def cancel_prefix_def)

lemma pjobs_cancel_prefix: "pjobs (cancel_prefix ''poll_'' q) = []"
  by (induction q) (auto simp: pjobs_def cancel_prefix_def)

lemma subseq_cancel_named: "subseq (map f (cancel_named n q)) (map f q)"
  unfolding cancel_named_def by (rule subseq_map) simp

lemma new_reminder_contexts: "subseq (map jcontext (new_reminder_jobs lib now r)) [r]"
  by (simp add: new_reminder_jobs_def split: sum.split option.split)

lemma new_poll_contexts: "subseq (map jcontext (new_poll_jobs lib now p)) [p]"
  by (simp add: new_poll_jobs_def split: sum.split option.split prod.split)

lemma schedule_all_reminders_contexts:
  "subseq (map jcontext (rjobs q)) done \<Longrightarrow>
   subseq (map jcontext (rjobs (schedule_all_reminders lib now rs q))) (done @ rs)"
proof (induction rs arbitrary: q "done")
  case Nil
  then show ?case by simp
next
  case (Cons r rs)
  have "subseq (map jcontext (cancel_named (reminder_job_name r) (rjobs q))) done"
    using subseq_cancel_named Cons.prems by (rule subseq_order.trans)
  then have "subseq (map jcontext (rjobs (schedule_reminder lib now r q))) (done @ [r])"
    by (simp add: schedule_reminder_eq rjobs_append rjobs_cancel_named rjobs_new
        list_emb_append_mono new_reminder_contexts)
  from Cons.IH [OF this] show ?case by simp
qed

lemma schedule_all_polls_contexts:
  "subseq (map jcontext (pjobs q)) done \<Longrightarrow>
   subseq (map jcontext (pjobs (schedule_all_polls lib now ps q)))
          (done @ filter (\<lambda>p. dget p ''status'' = PStr ''Active'') ps)"
proof (induction ps arbitrary: q "done")
  case Nil
  then show ?case by simp
next
  case (Cons p ps)
  show ?case
  proof (cases "dget p ''status'' = PStr ''Active''")
    case True
    have "subseq (map jcontext (cancel_named (poll_job_name p) (pjobs q))) done"
      using subseq_cancel_named Cons.prems by (rule subseq_order.trans)
    then have "subseq (map jcontext (pjobs (schedule_poll lib now p q))) (done @ [p])"
      by (simp add: schedule_poll_eq pjobs_append pjobs_cancel_named pjobs_new
          list_emb_append_mono new_poll_contexts)
    from Cons.IH [OF this] True show ?thesis by simp
  next
    case False
    with Cons.IH [OF Cons.prems] show ?thesis by simp
  qed
qed

lemma subseq_distinct: "subseq xs ys \<Longrightarrow> distinct ys \<Longrightarrow> distinct xs"
proof (induction rule: list_emb.induct)
  case (list_emb_Cons2 x y xs ys)
  then show ?case using list_emb_set [of "(=)" xs ys] by auto
qed auto

lemma lib_example_simps:
  "strptime_msk lib_example = strptime_example"
  "py_int lib_example = py_int_example"
  "str_lower lib_example = (\<lambda>s. s)"
  by (simp_all add: lib_example_def)

lemma parse_hm_example: "parse_hm lib_example ''09:30'' = Some (9, 30)"
  by (simp add: parse_hm_def lib_example_simps py_int_example_def)

lemma plan_poll_once_example:
  "plan_poll lib_example now_example poll_once_example
     = Inr (Some (''poll_1_missed'', RunOnce 1704101405000000))"
  by (simp add: plan_poll_def poll_once_example_def dget_default_def lib_example_simps
      strptime_example_def now_example_def hour_us_def five_seconds_us_def
      missed_job_name_def poll_id_str_def py_str_def)

lemma plan_reminder_once_example:
  "plan_reminder lib_example now_example reminder_once_example = Inr None"
  by (simp add: plan_reminder_def reminder_once_example_def lib_example_simps
      strptime_example_def now_example_def)

lemma plan_reminder_deleted_example:
  "plan_reminder lib_example now_example reminder_deleted_example = Inr (Some (RunDaily 6 30 every_day))"
  by (simp add: plan_reminder_def reminder_deleted_example_def parse_hm_example dt_time_ok_def)

lemma plan_poll_daily_example:
  "plan_poll lib_example now_example poll_daily_example = Inr (Some (''poll_4'', RunDaily 6 30 every_day))"
  by (simp add: plan_poll_def poll_daily_example_def dget_default_def poll_hm_def parse_hm_example
      dt_time_ok_def poll_job_name_def poll_id_str_def py_str_def)

subsection \<open>One live job per record\<close>

text \<open>
  C5. Scheduling the same just-missed one-shot poll twice leaves two live jobs for it: the
  removal loop looks for the name \<^verbatim>\<open>poll_1\<close>, the job it registered is named
  \<^verbatim>\<open>poll_1_missed\<close>.
\<close>

theorem schedule_poll_twice_two_live_jobs:
  "schedule_poll lib_example now_example poll_once_example
     (schedule_poll lib_example now_example poll_once_example []) =
   [\<lparr>jname = ''poll_1_missed'', jcallback = SendPoll,
     jtrigger = RunOnce 1704101405000000, jcontext = poll_once_example\<rparr>,
    \<lparr>jname = ''poll_1_missed'', jcallback = SendPoll,
     jtrigger = RunOnce 1704101405000000, jcontext = poll_once_example\<rparr>]"
  by (simp add: schedule_poll_def plan_poll_once_example cancel_named_def poll_job_name_def
      poll_id_str_def py_str_def)
     (simp add: poll_once_example_def dget_default_def)

text \<open>For reminders the key that is cancelled is the key that is registered.\<close>

lemma schedule_reminder_at_most_one:
  "length (filter (\<lambda>j. jname j = reminder_job_name r) (schedule_reminder lib now r q)) \<le> 1"
proof -
  have "filter (\<lambda>j. jname j = reminder_job_name r) (cancel_named (reminder_job_name r) q) = []"
    by (simp add: cancel_named_def filter_empty_conv)
  moreover have "length (filter (\<lambda>j. jname j = reminder_job_name r) (new_reminder_jobs lib now r)) \<le> 1"
    using new_reminder_jobs_length [of lib now r] length_filter_le le_trans by blast
  ultimately show ?thesis by (simp add: schedule_reminder_eq)
qed

subsection \<open>Rescheduling a whole collection\<close>

lemma reschedule_all_reminders_ids:
  assumes "distinct (map (\<lambda>r. dget r ''id'') rs)"
  shows "distinct (map (\<lambda>j. dget (jcontext j) ''id'') (rjobs (reschedule_all_reminders lib now rs q)))"
proof -
  have "subseq (map jcontext (rjobs (reschedule_all_reminders lib now rs q))) ([] @ rs)"
    unfolding reschedule_all_reminders_def
    by (rule schedule_all_reminders_contexts) (simp add: rjobs_cancel_prefix)
  then have "subseq (map (\<lambda>r. dget r ''id'') (map jcontext (rjobs (reschedule_all_reminders lib now rs q))))
                    (map (\<lambda>r. dget r ''id'') rs)"
    using subseq_map by fastforce
  then have "distinct (map (\<lambda>r. dget r ''id'') (map jcontext (rjobs (reschedule_all_reminders lib now rs q))))"
    using assms by (rule subseq_distinct)
  then show ?thesis by (simp add: comp_def)
qed

lemma reschedule_all_polls_ids:
  assumes "distinct (map (\<lambda>r. dget r ''id'') ps)"
  shows "distinct (map (\<lambda>j. dget (jcontext j) ''id'') (pjobs (reschedule_all_polls lib now ps q)))"
proof -
  let ?act = "filter (\<lambda>p. dget p ''status'' = PStr ''Active'') ps"
  have "subseq (map jcontext (pjobs (reschedule_all_polls lib now ps q))) ([] @ ?act)"
    unfolding reschedule_all_polls_def
    by (rule schedule_all_polls_contexts) (simp add: pjobs_cancel_prefix)
  then have "subseq (map (\<lambda>r. dget r ''id'') (map jcontext (pjobs (reschedule_all_polls lib now ps q))))
                    (map (\<lambda>r. dget r ''id'') ?act)"
    using subseq_map by fastforce
  moreover have "distinct (map (\<lambda>r. dget r ''id'') ?act)"
    using assms by (rule distinct_map_filter)
  ultimately have "distinct (map (\<lambda>r. dget r ''id'') (map jcontext (pjobs (reschedule_all_polls lib now ps q))))"
    by (rule subseq_distinct)
  then show ?thesis by (simp add: comp_def)
qed

text \<open>
  C6. Running reschedule-all a second time, at any clock reading, leaves exactly the queue
  that a single run at that reading leaves, for reminders and for polls; and when the
  stored records have pairwise different ids, no two live jobs of the collection belong
  to the same record id.
\<close>

theorem reschedule_all_idempotent:
  "reschedule_all_reminders lib now' rs (reschedule_all_reminders lib now rs q) =
     reschedule_all_reminders lib now' rs q \<and>
   reschedule_all_polls lib now' ps (reschedule_all_polls lib now ps q) =
     reschedule_all_polls lib now' ps q \<and>
   (distinct (map (\<lambda>r. dget r ''id'') rs) \<longrightarrow>
      distinct (map (\<lambda>j. dget (jcontext j) ''id'') (rjobs (reschedule_all_reminders lib now rs q)))) \<and>
   (distinct (map (\<lambda>p. dget p ''id'') ps) \<longrightarrow>
      distinct (map (\<lambda>j. dget (jcontext j) ''id'') (pjobs (reschedule_all_polls lib now ps q))))"
  using reschedule_all_reminders_again [of lib now' rs now rs q]
    reschedule_all_polls_again [of lib now' ps now ps q]
    reschedule_all_reminders_ids [of rs lib now q]
    reschedule_all_polls_ids [of ps lib now q]
  by blast

text \<open>The example: a queue with a foreign job, a stale reminder job and a stale poll job.\<close>

lemma names_example:
  "reminder_job_name reminder_once_example = ''reminder_1''"
  "reminder_job_name reminder_deleted_example = ''reminder_2''"
  "poll_job_name poll_once_example = ''poll_1''"
  "poll_job_name poll_daily_example = ''poll_4''"
  "poll_job_name poll_deleted_example = ''poll_3''"
  by (simp_all add: reminder_job_name_def poll_job_name_def poll_id_str_def dget_def dget_default_def
      py_str_def reminder_once_example_def reminder_deleted_example_def poll_once_example_def
      poll_daily_example_def poll_deleted_example_def)

lemma ids_example:
  "dget reminder_once_example ''id'' = PStr ''1''"
  "dget reminder_deleted_example ''id'' = PStr ''2''"
  "dget poll_once_example ''id'' = PStr ''1''"
  "dget poll_daily_example ''id'' = PStr ''4''"
  "dget poll_deleted_example ''id'' = PStr ''3''"
  by (simp_all add: dget_def reminder_once_example_def reminder_deleted_example_def
      poll_once_example_def poll_daily_example_def poll_deleted_example_def)

lemma status_example:
  "dget poll_once_example ''status'' = PStr ''Active''"
  "dget poll_daily_example ''status'' = PStr ''Active''"
  "dget poll_deleted_example ''status'' = PStr ''Deleted''"
  "dget reminder_deleted_example ''status'' = PStr ''Deleted''"
  by (simp_all add: dget_def reminder_deleted_example_def
      poll_once_example_def poll_daily_example_def poll_deleted_example_def)

lemma reschedule_reminders_example:
  "reschedule_all_reminders lib_example now_example [reminder_once_example, reminder_deleted_example] queue_example =
   [\<lparr>jname = ''ping_self'', jcallback = OtherCallback, jtrigger = RunOnce 0, jcontext = []\<rparr>,
    \<lparr>jname = ''poll_9'', jcallback = SendPoll, jtrigger = RunDaily 5 0 every_day,
        jcontext = poll_deleted_example\<rparr>,
    \<lparr>jname = ''reminder_2'', jcallback = SendReminder, jtrigger = RunDaily 6 30 every_day,
        jcontext = reminder_deleted_example\<rparr>]"
  by (simp add: reschedule_all_reminders_def schedule_reminder_def plan_reminder_once_example
      plan_reminder_deleted_example names_example cancel_prefix_def cancel_named_def queue_example_def)

lemma reschedule_polls_example:
  "reschedule_all_polls lib_example now_example [poll_once_example, poll_deleted_example, poll_daily_example] queue_example =
   [\<lparr>jname = ''ping_self'', jcallback = OtherCallback, jtrigger = RunOnce 0, jcontext = []\<rparr>,
    \<lparr>jname = ''reminder_2'', jcallback = SendReminder, jtrigger = RunDaily 5 0 every_day,
        jcontext = reminder_deleted_example\<rparr>,
    \<lparr>jname = ''poll_1_missed'', jcallback = SendPoll, jtrigger = RunOnce 1704101405000000,
        jcontext = poll_once_example\<rparr>,
    \<lparr>jname = ''poll_4'', jcallback = SendPoll, jtrigger = RunDaily 6 30 every_day,
        jcontext = poll_daily_example\<rparr>]"
  by (simp add: reschedule_all_polls_def schedule_poll_def plan_poll_once_example
      plan_poll_daily_example names_example status_example cancel_prefix_def cancel_named_def queue_example_def)

theorem reschedule_all_idempotent_witness:
  "distinct (map (\<lambda>r. dget r ''id'') [reminder_once_example, reminder_deleted_example]) \<and>
   distinct (map (\<lambda>p. dget p ''id'') [poll_once_example, poll_deleted_example, poll_daily_example]) \<and>
   reschedule_all_reminders lib_example now_example [reminder_once_example, reminder_deleted_example]
     (reschedule_all_reminders lib_example now_example [reminder_once_example, reminder_deleted_example] queue_example) =
   reschedule_all_reminders lib_example now_example [reminder_once_example, reminder_deleted_example] queue_example \<and>
   reschedule_all_polls lib_example now_example [poll_once_example, poll_deleted_example, poll_daily_example]
     (reschedule_all_polls lib_example now_example [poll_once_example, poll_deleted_example, poll_daily_example] queue_example) =
   reschedule_all_polls lib_example now_example [poll_once_example, poll_deleted_example, poll_daily_example] queue_example \<and>
   map (\<lambda>j. dget (jcontext j) ''id'')
     (rjobs (reschedule_all_reminders lib_example now_example [reminder_once_example, reminder_deleted_example] queue_example))
     = [PStr ''2''] \<and>
   map (\<lambda>j. dget (jcontext j) ''id'')
     (pjobs (reschedule_all_polls lib_example now_example [poll_once_example, poll_deleted_example, poll_daily_example] queue_example))
     = [PStr ''1'', PStr ''4'']"
proof -
  have d1: "distinct (map (\<lambda>r. dget r ''id'') [reminder_once_example, reminder_deleted_example])"
    by (simp add: ids_example)
  have d2: "distinct (map (\<lambda>p. dget p ''id'') [poll_once_example, poll_deleted_example, poll_daily_example])"
    by (simp add: ids_example)
  have e1: "map (\<lambda>j. dget (jcontext j) ''id'')
     (rjobs (reschedule_all_reminders lib_example now_example [reminder_once_example, reminder_deleted_example] queue_example))
     = [PStr ''2'']"
    by (simp add: reschedule_reminders_example rjobs_def ids_example)
  have e2: "map (\<lambda>j. dget (jcontext j) ''id'')
     (pjobs (reschedule_all_polls lib_example now_example [poll_once_example, poll_deleted_example, poll_daily_example] queue_example))
     = [PStr ''1'', PStr ''4'']"
    by (simp add: reschedule_polls_example pjobs_def ids_example)
  show ?thesis
    using d1 d2 e1 e2
      reschedule_all_idempotent [of lib_example now_example
        "[reminder_once_example, reminder_deleted_example]" now_example queue_example
        "[poll_once_example, poll_deleted_example, poll_daily_example]"]
    by simp
qed

subsection \<open>Scheduling a whole collection\<close>

lemma schedule_all_polls_new_active:
  "j \<in> set (schedule_all_polls lib now ps q) \<Longrightarrow>
   j \<in> set q \<or> dget (jcontext j) ''status'' = PStr ''Active''"
proof (induction ps arbitrary: q)
  case Nil
  then show ?case by simp
next
  case (Cons p ps)
  show ?case
  proof (cases "dget p ''status'' = PStr ''Active''")
    case True
    with Cons.prems have "j \<in> set (schedule_all_polls lib now ps (schedule_poll lib now p q))"
      by simp
    from Cons.IH [OF this] show ?thesis
    proof
      assume "j \<in> set (schedule_poll lib now p q)"
      then have "j \<in> set q \<or> j \<in> set (new_poll_jobs lib now p)"
        by (auto simp: schedule_poll_eq cancel_named_def)
      then show ?thesis using True new_poll_jobs_shape [of j lib now p] by auto
    qed simp
  next
    case False
    with Cons.prems Cons.IH show ?thesis by simp
  qed
qed

lemma schedule_all_polls_none_active:
  "(\<forall>p \<in> set ps. dget p ''status'' \<noteq> PStr ''Active'') \<Longrightarrow> schedule_all_polls lib now ps q = q"
  by (induction ps arbitrary: q) simp_all

lemma schedule_all_polls_foldl:
  "schedule_all_polls lib now ps q =
   foldl (\<lambda>q p. schedule_poll lib now p q) q (filter (\<lambda>p. dget p ''status'' = PStr ''Active'') ps)"
  by (induction ps arbitrary: q) simp_all

lemma schedule_all_reminders_foldl:
  "schedule_all_reminders lib now rs q = foldl (\<lambda>q r. schedule_reminder lib now r q) q rs"
  by (induction rs arbitrary: q) simp_all

lemma schedule_all_reminders_keeps:
  "j \<in> set q \<Longrightarrow> jname j \<notin> reminder_job_name ` set rs \<Longrightarrow> j \<in> set (schedule_all_reminders lib now rs q)"
proof (induction rs arbitrary: q)
  case Nil
  then show ?case by simp
next
  case (Cons r rs)
  from Cons.prems have "j \<in> set (schedule_reminder lib now r q)"
    by (simp add: schedule_reminder_eq cancel_named_def)
  with Cons.prems Cons.IH show ?case by simp
qed

lemma schedule_all_reminders_every:
  "r \<in> set rs \<Longrightarrow> distinct (map reminder_job_name rs) \<Longrightarrow>
   set (new_reminder_jobs lib now r) \<subseteq> set (schedule_all_reminders lib now rs q)"
proof (induction rs arbitrary: q)
  case Nil
  then show ?case by simp
next
  case (Cons a rs)
  show ?case
  proof (cases "r = a")
    case True
    show ?thesis
    proof
      fix j assume j: "j \<in> set (new_reminder_jobs lib now r)"
      then have "jname j = reminder_job_name a"
        using new_reminder_jobs_shape [of j lib now r] True by simp
      moreover have "j \<in> set (schedule_reminder lib now a q)"
        using j True by (simp add: schedule_reminder_eq)
      ultimately show "j \<in> set (schedule_all_reminders lib now (a # rs) q)"
        using Cons.prems(2) schedule_all_reminders_keeps [of j "schedule_reminder lib now a q" rs lib now]
        by auto
    qed
  next
    case False
    with Cons.prems Cons.IH show ?thesis by simp
  qed
qed

text \<open>
  C9. \<^verbatim>\<open>schedule_all_polls\<close> is \<^verbatim>\<open>schedule_poll\<close> run over the stored polls whose status is
  exactly \<^verbatim>\<open>"Active"\<close>: every job it adds to the queue belongs to such a poll, and when no
  stored poll is active the queue is left as it was. \<^verbatim>\<open>schedule_all_reminders\<close> runs
  \<^verbatim>\<open>schedule_reminder\<close> over every stored reminder and reads no status: each stored
  reminder, whatever its status, ends with the job that \<^verbatim>\<open>schedule_reminder\<close> gives it
  (job names being distinct).
\<close>

theorem schedule_all_status_filter:
  "(\<forall>j \<in> set (schedule_all_polls lib now ps q).
      j \<in> set q \<or> dget (jcontext j) ''status'' = PStr ''Active'') \<and>
   ((\<forall>p \<in> set ps. dget p ''status'' \<noteq> PStr ''Active'') \<longrightarrow> schedule_all_polls lib now ps q = q) \<and>
   schedule_all_polls lib now ps q =
     foldl (\<lambda>q p. schedule_poll lib now p q) q (filter (\<lambda>p. dget p ''status'' = PStr ''Active'') ps) \<and>
   schedule_all_reminders lib now rs q = foldl (\<lambda>q r. schedule_reminder lib now r q) q rs \<and>
   (r \<in> set rs \<and> distinct (map reminder_job_name rs) \<longrightarrow>
      set (new_reminder_jobs lib now r) \<subseteq> set (schedule_all_reminders lib now rs q))"
  using schedule_all_polls_new_active [of _ lib now ps q]
    schedule_all_polls_none_active [of ps lib now q]
    schedule_all_polls_foldl [of lib now ps q]
    schedule_all_reminders_foldl [of lib now rs q]
    schedule_all_reminders_every [of r rs lib now q]
  by blast

lemma schedule_all_polls_example:
  "schedule_all_polls lib_example now_example [poll_deleted_example, poll_nostatus_example, poll_daily_example] [] =
   [\<lparr>jname = ''poll_4'', jcallback = SendPoll, jtrigger = RunDaily 6 30 every_day,
        jcontext = poll_daily_example\<rparr>]"
  by (simp add: schedule_poll_def plan_poll_daily_example names_example status_example cancel_named_def)
     (simp add: poll_nostatus_example_def dget_def)

lemma schedule_all_reminders_example:
  "schedule_all_reminders lib_example now_example [reminder_once_example, reminder_deleted_example] [] =
   [\<lparr>jname = ''reminder_2'', jcallback = SendReminder, jtrigger = RunDaily 6 30 every_day,
        jcontext = reminder_deleted_example\<rparr>]"
  by (simp add: schedule_reminder_def plan_reminder_once_example
      plan_reminder_deleted_example names_example cancel_named_def)

theorem schedule_all_status_filter_witness:
  "dget poll_deleted_example ''status'' = PStr ''Deleted'' \<and>
   dget poll_nostatus_example ''status'' = PNone \<and>
   dget poll_daily_example ''status'' = PStr ''Active'' \<and>
   dget reminder_deleted_example ''status'' = PStr ''Deleted'' \<and>
   schedule_all_polls lib_example now_example [poll_deleted_example, poll_nostatus_example] queue_example
     = queue_example \<and>
   map jcontext (schedule_all_polls lib_example now_example
        [poll_deleted_example, poll_nostatus_example, poll_daily_example] [])
     = [poll_daily_example] \<and>
   reminder_deleted_example \<in> set [reminder_once_example, reminder_deleted_example] \<and>
   distinct (map reminder_job_name [reminder_once_example, reminder_deleted_example]) \<and>
   new_reminder_jobs lib_example now_example reminder_deleted_example =
     [\<lparr>jname = ''reminder_2'', jcallback = SendReminder, jtrigger = RunDaily 6 30 every_day,
        jcontext = reminder_deleted_example\<rparr>] \<and>
   \<lparr>jname = ''reminder_2'', jcallback = SendReminder, jtrigger = RunDaily 6 30 every_day,
        jcontext = reminder_deleted_example\<rparr>
     \<in> set (schedule_all_reminders lib_example now_example
          [reminder_once_example, reminder_deleted_example] [])"
proof -
  have s: "dget poll_nostatus_example ''status'' = PNone"
    by (simp add: poll_nostatus_example_def dget_def)
  have na: "\<forall>p \<in> set [poll_deleted_example, poll_nostatus_example]. dget p ''status'' \<noteq> PStr ''Active''"
    by (simp add: s status_example)
  have m: "reminder_deleted_example \<in> set [reminder_once_example, reminder_deleted_example]"
    by simp
  have d: "distinct (map reminder_job_name [reminder_once_example, reminder_deleted_example])"
    by (simp add: names_example)
  have n: "new_reminder_jobs lib_example now_example reminder_deleted_example =
     [\<lparr>jname = ''reminder_2'', jcallback = SendReminder, jtrigger = RunDaily 6 30 every_day,
        jcontext = reminder_deleted_example\<rparr>]"
    by (simp add: new_reminder_jobs_def plan_reminder_deleted_example names_example)
  have a: "schedule_all_polls lib_example now_example [poll_deleted_example, poll_nostatus_example] queue_example
     = queue_example"
    using schedule_all_status_filter [of lib_example now_example
        "[poll_deleted_example, poll_nostatus_example]" queue_example] na
    by blast
  have b: "\<lparr>jname = ''reminder_2'', jcallback = SendReminder, jtrigger = RunDaily 6 30 every_day,
        jcontext = reminder_deleted_example\<rparr>
     \<in> set (schedule_all_reminders lib_example now_example
          [reminder_once_example, reminder_deleted_example] [])"
    using schedule_all_status_filter [of lib_example now_example "[]" "[]"
        "[reminder_once_example, reminder_deleted_example]" reminder_deleted_example] m d n
    by auto
  have c: "map jcontext (schedule_all_polls lib_example now_example
        [poll_deleted_example, poll_nostatus_example, poll_daily_example] [])
     = [poll_daily_example]"
    by (simp only: schedule_all_polls_example) simp
  show ?thesis
    using a b c m d n s
    by (simp del: schedule_all_polls.simps schedule_all_reminders.simps add: status_example)
qed

subsection \<open>Delivery engine\<close>

lemma py_eq_refl [simp]: "py_eq v v"
  by (cases v) simp_all

lemma dget_dset_same: "dget (dset d k v) k = v"
  by (induction d) (auto simp: dget_def)

lemma dget_dset_other: "k' \<noteq> k \<Longrightarrow> dget (dset d k v) k' = dget d k'"
  by (induction d) (auto simp: dget_def)

lemma drop_record_absent: "r \<in> set (drop_record record rs) \<Longrightarrow> \<not> py_eq (dget r ''id'') (dget record ''id'')"
  by (simp add: drop_record_def)

lemma drop_record_self: "x \<notin> set (drop_record x rs)"
  using drop_record_absent [of x x rs] by auto

text \<open>Loading the chat list.\<close>

lemma load_chats_nonempty: "cs \<noteq> [] \<Longrightarrow> load_chats env (Some cs) = (Some cs, Some cs)"
  by (simp add: load_chats_def)

lemma load_chats_gives_up:
  assumes "file = None \<or> file = Some []" and "\<not> sheets_ready env \<or> restore_chats env = RestoreFalse"
  shows "load_chats env file = (None, Some [])"
  using assms by (auto simp: load_chats_def ensure_subscribed_chats_file_def)

lemma load_chats_source:
  assumes "load_chats env file = (Some chats, file')"
  shows "file' = Some chats \<and>
         ((file = Some chats \<and> chats \<noteq> []) \<or> (sheets_ready env \<and> restore_chats env = RestoreTrue (Some chats)))"
  using assms
  by (auto simp: load_chats_def ensure_subscribed_chats_file_def
      split: option.splits if_splits restore_outcome.splits)

lemma load_chats_restore_raises:
  assumes "file = None \<or> file = Some []" and "sheets_ready env" and "restore_chats env = RestoreRaises"
  shows "load_chats env file = (None, file)"
  using assms by (auto simp: load_chats_def ensure_subscribed_chats_file_def)

text \<open>The fan-out loop.\<close>

lemma deliver_reminder_blocked:
  "blocked_chats (deliver_reminder env c t) = blocked_chats t \<or>
   blocked_chats (deliver_reminder env c t) = blocked_chats t @ [c]"
  by (simp add: deliver_reminder_def split: option.split)

lemma deliver_reminder_attempts:
  "attempts (deliver_reminder env c t) = attempts t @ [(c, Html)] \<or>
   attempts (deliver_reminder env c t) = attempts t @ [(c, Html), (c, Plain)]"
  by (simp add: deliver_reminder_def split: option.split)

lemma deliver_reminder_primary_blocked:
  assumes "gateway env c Html = Some e" and "is_blocked_error e"
  shows "blocked_chats (deliver_reminder env c t) = blocked_chats t @ [c]"
    and "attempts (deliver_reminder env c t) = attempts t @ [(c, Html)]"
  using assms by (simp_all add: deliver_reminder_def)

lemma deliver_reminder_fallback_blocked:
  assumes "gateway env c Html = Some e" and "\<not> is_blocked_error e"
    and "gateway env c Plain = Some e2" and "is_blocked_error e2"
  shows "blocked_chats (deliver_reminder env c t) = blocked_chats t @ [c]"
  using assms by (simp add: deliver_reminder_def)

lemma fanout_reminder_blocked_mono:
  "set (blocked_chats t) \<subseteq> set (blocked_chats (fanout_reminder env cs t))"
proof (induction cs arbitrary: t)
  case (Cons c cs)
  have "set (blocked_chats t) \<subseteq> set (blocked_chats (deliver_reminder env c t))"
    using deliver_reminder_blocked [of env c t] by auto
  with Cons.IH [of "deliver_reminder env c t"] show ?case by auto
qed simp

lemma fanout_reminder_blocked_subset:
  "set (blocked_chats (fanout_reminder env cs t)) \<subseteq> set (blocked_chats t) \<union> set cs"
proof (induction cs arbitrary: t)
  case (Cons c cs)
  have "set (blocked_chats (deliver_reminder env c t)) \<subseteq> set (blocked_chats t) \<union> {c}"
    using deliver_reminder_blocked [of env c t] by auto
  with Cons.IH [of "deliver_reminder env c t"] show ?case by auto
qed simp

lemma fanout_reminder_attempts_chats:
  "fst ` set (attempts (fanout_reminder env cs t)) = fst ` set (attempts t) \<union> set cs"
proof (induction cs arbitrary: t)
  case (Cons c cs)
  have "fst ` set (attempts (deliver_reminder env c t)) = fst ` set (attempts t) \<union> {c}"
    using deliver_reminder_attempts [of env c t] by auto
  with Cons.IH [of "deliver_reminder env c t"] show ?case by auto
qed simp

lemma fanout_reminder_primary_blocked:
  assumes "gateway env c Html = Some e" and "is_blocked_error e"
  shows "c \<in> set cs \<Longrightarrow> c \<in> set (blocked_chats (fanout_reminder env cs t))"
    and "(c, Plain) \<notin> set (attempts t) \<Longrightarrow> (c, Plain) \<notin> set (attempts (fanout_reminder env cs t))"
proof (induction cs arbitrary: t)
  case Nil
  { case 1 then show ?case by simp }
  { case 2 then show ?case by simp }
next
  case (Cons a cs)
  { case 1
    show ?case
    proof (cases "a = c")
      case True
      then have "c \<in> set (blocked_chats (deliver_reminder env a t))"
        using deliver_reminder_primary_blocked(1) [OF assms, of t] by simp
      then show ?thesis using fanout_reminder_blocked_mono [of "deliver_reminder env a t" env cs] by auto
    next
      case False
      with 1 Cons.IH(1) show ?thesis by simp
    qed }
  { case 2
    have "(c, Plain) \<notin> set (attempts (deliver_reminder env a t))"
    proof (cases "a = c")
      case True
      then show ?thesis using deliver_reminder_primary_blocked(2) [OF assms, of t] 2 by simp
    next
      case False
      then show ?thesis using deliver_reminder_attempts [of env a t] 2 by auto
    qed
    then show ?case using Cons.IH(2) by simp }
qed

lemma fanout_reminder_fallback_blocked:
  assumes "gateway env c Html = Some e" and "\<not> is_blocked_error e"
    and "gateway env c Plain = Some e2" and "is_blocked_error e2"
  shows "c \<in> set cs \<Longrightarrow> c \<in> set (blocked_chats (fanout_reminder env cs t))"
proof (induction cs arbitrary: t)
  case Nil
  then show ?case by simp
next
  case (Cons a cs)
  show ?case
  proof (cases "a = c")
    case True
    then have "c \<in> set (blocked_chats (deliver_reminder env a t))"
      using deliver_reminder_fallback_blocked [OF assms, of t] by simp
    then show ?thesis using fanout_reminder_blocked_mono [of "deliver_reminder env a t" env cs] by auto
  next
    case False
    with Cons show ?thesis by simp
  qed
qed

lemma deliver_poll_blocked:
  "blocked_chats (deliver_poll env c t) = blocked_chats t \<or>
   blocked_chats (deliver_poll env c t) = blocked_chats t @ [c]"
  by (simp add: deliver_poll_def split: option.split)

lemma deliver_poll_attempts: "attempts (deliver_poll env c t) = attempts t @ [(c, PollMsg)]"
  by (simp add: deliver_poll_def split: option.split)

lemma deliver_poll_is_blocked:
  assumes "gateway env c PollMsg = Some e" and "is_blocked_error e"
  shows "blocked_chats (deliver_poll env c t) = blocked_chats t @ [c]"
  using assms by (simp add: deliver_poll_def)

lemma fanout_poll_blocked_mono:
  "set (blocked_chats t) \<subseteq> set (blocked_chats (fanout_poll env cs t))"
proof (induction cs arbitrary: t)
  case (Cons c cs)
  have "set (blocked_chats t) \<subseteq> set (blocked_chats (deliver_poll env c t))"
    using deliver_poll_blocked [of env c t] by auto
  with Cons.IH [of "deliver_poll env c t"] show ?case by auto
qed simp

lemma fanout_poll_attempts: "attempts (fanout_poll env cs t) = attempts t @ map (\<lambda>c. (c, PollMsg)) cs"
  by (induction cs arbitrary: t) (simp_all add: deliver_poll_attempts)

lemma fanout_poll_is_blocked:
  assumes "gateway env c PollMsg = Some e" and "is_blocked_error e"
  shows "c \<in> set cs \<Longrightarrow> c \<in> set (blocked_chats (fanout_poll env cs t))"
proof (induction cs arbitrary: t)
  case Nil
  then show ?case by simp
next
  case (Cons a cs)
  show ?case
  proof (cases "a = c")
    case True
    then have "c \<in> set (blocked_chats (deliver_poll env a t))"
      using deliver_poll_is_blocked [OF assms, of t] by simp
    then show ?thesis using fanout_poll_blocked_mono [of "deliver_poll env a t" env cs] by auto
  next
    case False
    with Cons show ?thesis by simp
  qed
qed

text \<open>Removal of blocked chats: the calls of \<^verbatim>\<open>unsubscribe_user\<close> find nothing left to remove.\<close>

lemma unsubscribe_absent: "cid \<notin> set cs \<Longrightarrow> unsubscribe_user cid (Some cs) = Some cs"
  by (simp add: unsubscribe_user_def)

lemma unsubscribe_all_absent:
  "set bs \<inter> set cs = {} \<Longrightarrow> foldl (\<lambda>f b. unsubscribe_user b f) (Some cs) bs = Some cs"
  by (induction bs) (simp_all add: unsubscribe_absent)

lemma remove_blocked_reminder_eq:
  "remove_blocked_reminder chats blocked file =
     (if blocked \<noteq> [] then Some (filter (\<lambda>cid. cid \<notin> set blocked) chats) else file)"
proof -
  have "set blocked \<inter> set (filter (\<lambda>cid. cid \<notin> set blocked) chats) = {}" by auto
  then show ?thesis
    by (simp add: remove_blocked_reminder_def unsubscribe_all_absent)
qed

lemma env_simps:
  "gateway env_offline = (\<lambda>c f. None)" "sheets_ready env_offline = False"
  "restore_chats env_offline = RestoreFalse" "sent_time env_offline = ''2024-01-01 12:30:05''"
  "gateway env_backup_empty = (\<lambda>c f. None)" "sheets_ready env_backup_empty = True"
  "restore_chats env_backup_empty = RestoreFalse"
  "gateway env_blocked = (\<lambda>c f. if c = 7 then Some ''Forbidden: bot was blocked by the user'' else None)"
  "sheets_ready env_blocked = True" "restore_chats env_blocked = RestoreTrue (Some [7])"
  by (simp_all add: env_offline_def env_backup_empty_def env_blocked_def)

lemma blocked_text_example: "is_blocked_error ''Forbidden: bot was blocked by the user''"
  by (simp add: is_blocked_error_def)

text \<open>The shape of a firing.\<close>

lemma send_reminder_gives_up:
  "load_chats env (chats_file w) = (None, file) \<Longrightarrow>
   send_reminder env reminder w = (w\<lparr>chats_file := file\<rparr>, tally0)"
  by (simp add: send_reminder_def)

lemma send_poll_gives_up:
  "load_chats env (chats_file w) = (None, file) \<Longrightarrow>
   send_poll env poll w = (w\<lparr>chats_file := file\<rparr>, tally0) \<or> send_poll env poll w = (w, tally0)"
  by (simp add: send_poll_def)

lemma send_reminder_fanout:
  assumes "load_chats env (chats_file w) = (Some chats, file)" and "chats \<noteq> []"
  shows "snd (send_reminder env reminder w) = fanout_reminder env chats tally0"
    and "chats_file (fst (send_reminder env reminder w)) =
           remove_blocked_reminder chats (blocked_chats (fanout_reminder env chats tally0)) file"
    and "reminders_store (fst (send_reminder env reminder w)) =
           (if dget reminder ''type'' = PStr ''once'' then drop_record reminder (reminders_store w)
            else reminders_store w)"
  using assms by (simp_all add: send_reminder_def Let_def)

lemma send_reminder_no_fanout:
  assumes "load_chats env (chats_file w) \<noteq> (Some chats, file) \<or> chats = []"
    and "load_chats env (chats_file w) = (x, file)" and "x = None \<or> x = Some chats"
  shows "snd (send_reminder env reminder w) = tally0"
  using assms by (auto simp: send_reminder_def)

lemma send_poll_fanout:
  assumes "load_chats env (chats_file w) = (Some chats, file)" and "chats \<noteq> []"
    and "poll \<noteq> []" and "sliceable (dget_default poll ''question'' (PStr ''NO QUESTION''))"
  shows "snd (send_poll env poll w) = fanout_poll env chats tally0"
    and "chats_file (fst (send_poll env poll w)) =
           remove_blocked_poll chats (blocked_chats (fanout_poll env chats tally0)) file"
    and "polls_store (fst (send_poll env poll w)) =
           (if is_once_poll poll
            then drop_record poll (replace_first poll (updated_poll env poll (fanout_poll env chats tally0)) (polls_store w))
            else replace_first poll (updated_poll env poll (fanout_poll env chats tally0)) (polls_store w))"
  using assms by (simp_all add: send_poll_def Let_def)

lemma tally0_simps [simp]: "attempts tally0 = []" "blocked_chats tally0 = []"
  by (simp_all add: tally0_def)

lemma send_reminder_iterates:
  assumes "c \<in> fst ` set (attempts (snd (send_reminder env reminder w)))"
  shows "\<exists>chats file. load_chats env (chats_file w) = (Some chats, file) \<and> c \<in> set chats"
proof (cases "load_chats env (chats_file w)")
  case (Pair x fl)
  show ?thesis
  proof (cases x)
    case None
    with Pair assms show ?thesis by (simp add: send_reminder_gives_up)
  next
    case (Some chats)
    show ?thesis
    proof (cases "chats = []")
      case True
      with Pair Some assms show ?thesis by (simp add: send_reminder_def split: if_splits)
    next
      case False
      with Pair Some assms have "c \<in> fst ` set (attempts (fanout_reminder env chats tally0))"
        by (simp add: send_reminder_fanout(1))
      then have "c \<in> set chats" by (simp add: fanout_reminder_attempts_chats)
      with Pair Some show ?thesis by simp
    qed
  qed
qed

lemma send_poll_iterates:
  assumes "c \<in> fst ` set (attempts (snd (send_poll env poll w)))"
  shows "\<exists>chats file. load_chats env (chats_file w) = (Some chats, file) \<and> c \<in> set chats"
proof (cases "load_chats env (chats_file w)")
  case (Pair x fl)
  have ok: "poll \<noteq> []" "sliceable (dget_default poll ''question'' (PStr ''NO QUESTION''))"
    using assms by (auto simp: send_poll_def split: if_splits)
  show ?thesis
  proof (cases x)
    case None
    with Pair assms ok show ?thesis by (simp add: send_poll_def)
  next
    case (Some chats)
    show ?thesis
    proof (cases "chats = []")
      case True
      with Pair Some assms show ?thesis by (simp add: send_poll_def split: if_splits)
    next
      case False
      with Pair Some assms ok have "c \<in> fst ` set (attempts (fanout_poll env chats tally0))"
        by (simp add: send_poll_fanout(1))
      then have "c \<in> set chats" by (auto simp: fanout_poll_attempts)
      with Pair Some show ?thesis by simp
    qed
  qed
qed

lemma iterated_again_only_from_backup:
  assumes "chats_file w = Some cs" and "c \<notin> set cs"
    and "load_chats env (chats_file w) = (Some chats, file)" and "c \<in> set chats"
  shows "sheets_ready env \<and> (\<exists>cs'. restore_chats env = RestoreTrue (Some cs') \<and> c \<in> set cs')"
  using load_chats_source [OF assms(3)] assms by auto

subsection \<open>Lifecycle of a record at a firing\<close>

text \<open>
  Once the chat list has been loaded, a one-shot reminder is taken out of the store
  whatever the gateway answers; a recurring reminder never changes the store.
\<close>

lemma send_reminder_once_removed:
  assumes "load_chats env (chats_file w) = (Some chats, file)"
    and "chats \<noteq> [] \<or> sliceable (dget_default reminder ''text'' (PStr []))"
    and "dget reminder ''type'' = PStr ''once''"
  shows "reminders_store (fst (send_reminder env reminder w)) = drop_record reminder (reminders_store w)"
    and "reminder \<notin> set (reminders_store (fst (send_reminder env reminder w)))"
proof -
  show "reminders_store (fst (send_reminder env reminder w)) = drop_record reminder (reminders_store w)"
    using assms by (auto simp: send_reminder_def Let_def)
  then show "reminder \<notin> set (reminders_store (fst (send_reminder env reminder w)))"
    by (simp add: drop_record_self)
qed

lemma send_reminder_recurring_store:
  "dget reminder ''type'' \<noteq> PStr ''once'' \<Longrightarrow>
   reminders_store (fst (send_reminder env reminder w)) = reminders_store w"
  by (simp add: send_reminder_def Let_def split: prod.split option.split)

lemma send_reminder_empty_audience:
  assumes "load_chats env (chats_file w) = (Some [], file)"
  shows "attempts (snd (send_reminder env reminder w)) = []"
    and "dget reminder ''type'' \<noteq> PStr ''once'' \<Longrightarrow>
         reminders_store (fst (send_reminder env reminder w)) = reminders_store w"
  using assms by (simp_all add: send_reminder_def)



text \<open>
  C2. The claim that a one-shot record is gone from the store after every firing fails
  when the chat list cannot be loaded: with no chats file and no Sheets manager,
  \<^verbatim>\<open>send_reminder\<close> returns after the failed emergency restore and the one-shot reminder is
  still stored.
\<close>

theorem once_reminder_kept_when_load_gives_up:
  "send_reminder env_offline reminder_once_example
     \<lparr>chats_file = None, reminders_store = [reminder_once_example], polls_store = []\<rparr> =
   (\<lparr>chats_file = Some [], reminders_store = [reminder_once_example], polls_store = []\<rparr>, tally0)"
proof -
  have "load_chats env_offline None = (None, Some [])"
    by (rule load_chats_gives_up) (simp_all add: env_simps)
  then show ?thesis by (simp add: send_reminder_gives_up)
qed

text \<open>
  C8. With an empty chat list in the file and a Sheets restore that fails, neither
  \<^verbatim>\<open>send_poll\<close> nor \<^verbatim>\<open>send_reminder\<close> reaches the branch that deletes a one-shot record
  without recipients: both return early and the one-shot records stay in the store.
\<close>

theorem once_records_kept_with_empty_chat_list:
  "send_poll env_backup_empty poll_once_example
     \<lparr>chats_file = Some [], reminders_store = [reminder_once_example],
      polls_store = [poll_once_example]\<rparr> =
   (\<lparr>chats_file = Some [], reminders_store = [reminder_once_example],
     polls_store = [poll_once_example]\<rparr>, tally0) \<and>
   send_reminder env_backup_empty reminder_once_example
     \<lparr>chats_file = Some [], reminders_store = [reminder_once_example],
      polls_store = [poll_once_example]\<rparr> =
   (\<lparr>chats_file = Some [], reminders_store = [reminder_once_example],
     polls_store = [poll_once_example]\<rparr>, tally0)"
proof -
  have l: "load_chats env_backup_empty (Some []) = (None, Some [])"
    by (rule load_chats_gives_up) (simp_all add: env_simps)
  have q: "sliceable (dget_default poll_once_example ''question'' (PStr ''NO QUESTION''))"
    by (simp add: sliceable_def dget_default_def poll_once_example_def)
  have n: "poll_once_example \<noteq> []"
    by (simp add: poll_once_example_def)
  show ?thesis
    using l q n by (simp add: send_reminder_gives_up send_poll_def)
qed

text \<open>
  C3. A daily reminder fires with one subscriber, who receives it. The stored record is
  not rewritten: the store is exactly what it was and the record has no \<^verbatim>\<open>last_sent\<close>.
\<close>

theorem daily_reminder_not_rewritten:
  "dget reminder_daily_example ''type'' = PStr ''daily'' \<and>
   send_reminder env_offline reminder_daily_example
     \<lparr>chats_file = Some [1], reminders_store = [reminder_daily_example], polls_store = []\<rparr> =
   (\<lparr>chats_file = Some [1], reminders_store = [reminder_daily_example], polls_store = []\<rparr>,
    \<lparr>total_sent = 1, total_failed = 0, blocked_chats = [], attempts = [(1, Html)]\<rparr>) \<and>
   dget reminder_daily_example ''last_sent'' = PNone \<and>
   sent_time env_offline = ''2024-01-01 12:30:05''"
proof -
  have t: "dget reminder_daily_example ''type'' = PStr ''daily''"
    "dget reminder_daily_example ''last_sent'' = PNone"
    by (simp_all add: dget_def reminder_daily_example_def)
  have f: "deliver_reminder env_offline 1 tally0 =
      \<lparr>total_sent = 1, total_failed = 0, blocked_chats = [], attempts = [(1, Html)]\<rparr>"
    by (simp add: deliver_reminder_def env_simps tally0_def)
  show ?thesis
    by (simp add: send_reminder_def load_chats_nonempty f t remove_blocked_reminder_eq env_simps)
qed

text \<open>
  \<^verbatim>\<open>send_poll\<close> does rewrite a recurring poll in place: the first stored poll with the id
  of the snapshot is replaced by the snapshot carrying the time of this firing.
\<close>

lemma replace_first_length: "length (replace_first poll u ps) = length ps"
  by (induction ps) simp_all

lemma replace_first_found:
  assumes "\<exists>p \<in> set ps. py_eq (dget p ''id'') (dget poll ''id'')"
  shows "\<exists>i < length ps. py_eq (dget (ps ! i) ''id'') (dget poll ''id'') \<and>
           (\<forall>j < i. \<not> py_eq (dget (ps ! j) ''id'') (dget poll ''id'')) \<and>
           replace_first poll u ps = ps[i := u]"
  using assms
proof (induction ps)
  case Nil
  then show ?case by simp
next
  case (Cons p ps)
  show ?case
  proof (cases "py_eq (dget p ''id'') (dget poll ''id'')")
    case True
    then have "py_eq (dget ((p # ps) ! 0) ''id'') (dget poll ''id'') \<and>
           (\<forall>j < 0. \<not> py_eq (dget ((p # ps) ! j) ''id'') (dget poll ''id'')) \<and>
           replace_first poll u (p # ps) = (p # ps)[0 := u]" by simp
    then show ?thesis by blast
  next
    case False
    with Cons.prems have "\<exists>p \<in> set ps. py_eq (dget p ''id'') (dget poll ''id'')" by auto
    from Cons.IH [OF this] obtain i where i: "i < length ps"
      "py_eq (dget (ps ! i) ''id'') (dget poll ''id'')"
      "\<forall>j < i. \<not> py_eq (dget (ps ! j) ''id'') (dget poll ''id'')"
      "replace_first poll u ps = ps[i := u]" by blast
    have "\<forall>j < Suc i. \<not> py_eq (dget ((p # ps) ! j) ''id'') (dget poll ''id'')"
      using i(3) False by (auto simp: less_Suc_eq_0_disj)
    with i False have "Suc i < length (p # ps) \<and>
           py_eq (dget ((p # ps) ! Suc i) ''id'') (dget poll ''id'') \<and>
           (\<forall>j < Suc i. \<not> py_eq (dget ((p # ps) ! j) ''id'') (dget poll ''id'')) \<and>
           replace_first poll u (p # ps) = (p # ps)[Suc i := u]" by simp
    then show ?thesis by blast
  qed
qed

lemma updated_poll_last_sent: "dget (updated_poll env poll t) ''last_sent'' = PStr (sent_time env)"
  by (simp add: updated_poll_def dget_dset_same dget_dset_other)

lemma send_poll_recurring_rewritten:
  assumes "load_chats env (chats_file w) = (Some chats, file)" and "chats \<noteq> []"
    and "poll \<noteq> []" and "sliceable (dget_default poll ''question'' (PStr ''NO QUESTION''))"
    and "\<not> is_once_poll poll"
    and "\<exists>p \<in> set (polls_store w). py_eq (dget p ''id'') (dget poll ''id'')"
  shows "\<exists>i < length (polls_store w).
           py_eq (dget (polls_store w ! i) ''id'') (dget poll ''id'') \<and>
           polls_store (fst (send_poll env poll w)) =
             (polls_store w)[i := updated_poll env poll (snd (send_poll env poll w))] \<and>
           dget (polls_store (fst (send_poll env poll w)) ! i) ''last_sent'' = PStr (sent_time env)"
proof -
  let ?u = "updated_poll env poll (fanout_poll env chats tally0)"
  from replace_first_found [OF assms(6), of ?u] obtain i where i: "i < length (polls_store w)"
    "py_eq (dget (polls_store w ! i) ''id'') (dget poll ''id'')"
    "replace_first poll ?u (polls_store w) = (polls_store w)[i := ?u]" by blast
  have "polls_store (fst (send_poll env poll w)) = (polls_store w)[i := ?u]"
    using send_poll_fanout(3) [OF assms(1-4)] assms(5) i(3) by simp
  moreover have "snd (send_poll env poll w) = fanout_poll env chats tally0"
    using send_poll_fanout(1) [OF assms(1-4)] .
  ultimately show ?thesis using i(1,2) by (auto simp: updated_poll_last_sent)
qed

subsection \<open>Missed one-shot triggers\<close>




subsection \<open>Blocked subscribers\<close>

lemma send_reminder_blocked_persisted:
  assumes "c \<in> set (blocked_chats (snd (send_reminder env reminder w)))"
  shows "\<exists>cs. chats_file (fst (send_reminder env reminder w)) = Some cs \<and> c \<notin> set cs"
proof (cases "load_chats env (chats_file w)")
  case (Pair x fl)
  show ?thesis
  proof (cases x)
    case None
    with Pair assms show ?thesis by (simp add: send_reminder_gives_up)
  next
    case (Some chats)
    show ?thesis
    proof (cases "chats = []")
      case True
      with Pair Some assms show ?thesis by (simp add: send_reminder_def split: if_splits)
    next
      case False
      let ?t = "fanout_reminder env chats tally0"
      from Pair Some False have s: "snd (send_reminder env reminder w) = ?t"
        and f: "chats_file (fst (send_reminder env reminder w)) =
                 remove_blocked_reminder chats (blocked_chats ?t) fl"
        by (simp_all add: send_reminder_fanout)
      from assms s have b: "c \<in> set (blocked_chats ?t)" by simp
      then have "blocked_chats ?t \<noteq> []" by auto
      with f have "chats_file (fst (send_reminder env reminder w)) =
          Some (filter (\<lambda>cid. cid \<notin> set (blocked_chats ?t)) chats)"
        by (simp add: remove_blocked_reminder_eq)
      with b show ?thesis by simp
    qed
  qed
qed

lemma send_poll_blocked_persisted:
  assumes "c \<in> set (blocked_chats (snd (send_poll env poll w)))"
  shows "\<exists>cs. chats_file (fst (send_poll env poll w)) = Some cs \<and> c \<notin> set cs"
proof (cases "load_chats env (chats_file w)")
  case (Pair x fl)
  have ok: "poll \<noteq> []" "sliceable (dget_default poll ''question'' (PStr ''NO QUESTION''))"
    using assms by (auto simp: send_poll_def split: if_splits)
  show ?thesis
  proof (cases x)
    case None
    with Pair assms ok show ?thesis by (simp add: send_poll_def)
  next
    case (Some chats)
    show ?thesis
    proof (cases "chats = []")
      case True
      with Pair Some assms show ?thesis by (simp add: send_poll_def split: if_splits)
    next
      case False
      let ?t = "fanout_poll env chats tally0"
      from Pair Some False ok have s: "snd (send_poll env poll w) = ?t"
        and f: "chats_file (fst (send_poll env poll w)) =
                 remove_blocked_poll chats (blocked_chats ?t) fl"
        by (simp_all add: send_poll_fanout)
      from assms s have b: "c \<in> set (blocked_chats ?t)" by simp
      then have "blocked_chats ?t \<noteq> []" by auto
      with f have "chats_file (fst (send_poll env poll w)) =
          Some (filter (\<lambda>cid. cid \<notin> set (blocked_chats ?t)) chats)"
        by (simp add: remove_blocked_poll_def)
      with b show ?thesis by simp
    qed
  qed
qed

lemma next_firing_only_from_backup:
  assumes "chats_file w = Some cs" and "c \<notin> set cs"
    and "c \<in> fst ` set (attempts (snd (send_reminder env reminder w))) \<or>
         c \<in> fst ` set (attempts (snd (send_poll env poll w)))"
  shows "sheets_ready env \<and> (\<exists>cs'. restore_chats env = RestoreTrue (Some cs') \<and> c \<in> set cs')"
proof -
  from assms(3) obtain chats fl where "load_chats env (chats_file w) = (Some chats, fl)" "c \<in> set chats"
    using send_reminder_iterates [of c env reminder w] send_poll_iterates [of c env poll w] by blast
  with assms(1,2) show ?thesis by (rule iterated_again_only_from_backup)
qed

text \<open>
  What a firing does with a chat \<open>c\<close> it iterates. If the first attempt for \<open>c\<close> fails with
  one of the four blocking texts, \<open>c\<close> is put on the removal list and no plain-text attempt
  is made for it; if the plain-text attempt of a reminder fails so, \<open>c\<close> is put on the list
  too; the same holds for the single attempt of a poll. After the firing the chats file
  holds a list without any chat of the removal list, and a firing on the very state this
  one left iterates \<open>c\<close> only when its emergency restore brings \<open>c\<close> back from the backup
  store.
\<close>

lemma blocked_subscriber_removed_locally:
  assumes "load_chats env (chats_file w) = (Some chats, file)" and "c \<in> set chats"
  shows
   "(\<forall>e. gateway env c Html = Some e \<and> is_blocked_error e \<longrightarrow>
       c \<in> set (blocked_chats (snd (send_reminder env reminder w))) \<and>
       (c, Plain) \<notin> set (attempts (snd (send_reminder env reminder w)))) \<and>
    (\<forall>e e2. gateway env c Html = Some e \<and> \<not> is_blocked_error e \<and>
            gateway env c Plain = Some e2 \<and> is_blocked_error e2 \<longrightarrow>
       c \<in> set (blocked_chats (snd (send_reminder env reminder w)))) \<and>
    (\<forall>e. gateway env c PollMsg = Some e \<and> is_blocked_error e \<and> poll \<noteq> [] \<and>
         sliceable (dget_default poll ''question'' (PStr ''NO QUESTION'')) \<longrightarrow>
       c \<in> set (blocked_chats (snd (send_poll env poll w)))) \<and>
    (\<forall>w' t. (w', t) = send_reminder env reminder w \<or> (w', t) = send_poll env poll w \<longrightarrow>
       c \<in> set (blocked_chats t) \<longrightarrow>
         (\<exists>cs. chats_file w' = Some cs \<and> c \<notin> set cs) \<and>
         (\<forall>env' reminder' poll'.
            c \<in> fst ` set (attempts (snd (send_reminder env' reminder' w'))) \<or>
            c \<in> fst ` set (attempts (snd (send_poll env' poll' w'))) \<longrightarrow>
            sheets_ready env' \<and> (\<exists>cs'. restore_chats env' = RestoreTrue (Some cs') \<and> c \<in> set cs')))"
proof -
  have persisted: "\<exists>cs. chats_file w' = Some cs \<and> c \<notin> set cs"
    if h: "(w', t) = send_reminder env reminder w \<or> (w', t) = send_poll env poll w"
      and b: "c \<in> set (blocked_chats t)" for w' t
    using h
  proof
    assume "(w', t) = send_reminder env reminder w"
    then have "w' = fst (send_reminder env reminder w)" "t = snd (send_reminder env reminder w)"
      by (metis fst_conv, metis snd_conv)
    with b send_reminder_blocked_persisted [of c env reminder w] show ?thesis by simp
  next
    assume "(w', t) = send_poll env poll w"
    then have "w' = fst (send_poll env poll w)" "t = snd (send_poll env poll w)"
      by (metis fst_conv, metis snd_conv)
    with b send_poll_blocked_persisted [of c env poll w] show ?thesis by simp
  qed
  have ne: "chats \<noteq> []" using assms(2) by auto
  note r = send_reminder_fanout(1) [OF assms(1) ne, of reminder]
  have c1: "\<forall>e. gateway env c Html = Some e \<and> is_blocked_error e \<longrightarrow>
       c \<in> set (blocked_chats (snd (send_reminder env reminder w))) \<and>
       (c, Plain) \<notin> set (attempts (snd (send_reminder env reminder w)))"
  proof (intro allI impI)
    fix e assume a: "gateway env c Html = Some e \<and> is_blocked_error e"
    then have "c \<in> set (blocked_chats (snd (send_reminder env reminder w)))"
      using fanout_reminder_primary_blocked(1) [of env c e chats tally0] assms(2) r by simp
    moreover from a have "(c, Plain) \<notin> set (attempts (snd (send_reminder env reminder w)))"
      using fanout_reminder_primary_blocked(2) [of env c e tally0 chats] r by simp
    ultimately show "c \<in> set (blocked_chats (snd (send_reminder env reminder w))) \<and>
       (c, Plain) \<notin> set (attempts (snd (send_reminder env reminder w)))" by simp
  qed
  have c2: "\<forall>e e2. gateway env c Html = Some e \<and> \<not> is_blocked_error e \<and>
            gateway env c Plain = Some e2 \<and> is_blocked_error e2 \<longrightarrow>
       c \<in> set (blocked_chats (snd (send_reminder env reminder w)))"
    using fanout_reminder_fallback_blocked [of env c _ _ chats tally0] assms(2) r by simp
  have c3: "\<forall>e. gateway env c PollMsg = Some e \<and> is_blocked_error e \<and> poll \<noteq> [] \<and>
         sliceable (dget_default poll ''question'' (PStr ''NO QUESTION'')) \<longrightarrow>
       c \<in> set (blocked_chats (snd (send_poll env poll w)))"
  proof (intro allI impI)
    fix e assume a: "gateway env c PollMsg = Some e \<and> is_blocked_error e \<and> poll \<noteq> [] \<and>
         sliceable (dget_default poll ''question'' (PStr ''NO QUESTION''))"
    then have "snd (send_poll env poll w) = fanout_poll env chats tally0"
      using send_poll_fanout(1) [OF assms(1) ne, of poll] by simp
    with a show "c \<in> set (blocked_chats (snd (send_poll env poll w)))"
      using fanout_poll_is_blocked [of env c e chats tally0] assms(2) by simp
  qed
  have c4: "\<forall>w' t. (w', t) = send_reminder env reminder w \<or> (w', t) = send_poll env poll w \<longrightarrow>
       c \<in> set (blocked_chats t) \<longrightarrow>
         (\<exists>cs. chats_file w' = Some cs \<and> c \<notin> set cs) \<and>
         (\<forall>env' reminder' poll'.
            c \<in> fst ` set (attempts (snd (send_reminder env' reminder' w'))) \<or>
            c \<in> fst ` set (attempts (snd (send_poll env' poll' w'))) \<longrightarrow>
            sheets_ready env' \<and> (\<exists>cs'. restore_chats env' = RestoreTrue (Some cs') \<and> c \<in> set cs'))"
  proof (intro allI impI)
    fix w' t
    assume h: "(w', t) = send_reminder env reminder w \<or> (w', t) = send_poll env poll w"
      and b: "c \<in> set (blocked_chats t)"
    from persisted [OF h b] obtain cs where cs: "chats_file w' = Some cs" "c \<notin> set cs" by blast
    have "\<forall>env' reminder' poll'.
            c \<in> fst ` set (attempts (snd (send_reminder env' reminder' w'))) \<or>
            c \<in> fst ` set (attempts (snd (send_poll env' poll' w'))) \<longrightarrow>
            sheets_ready env' \<and> (\<exists>cs'. restore_chats env' = RestoreTrue (Some cs') \<and> c \<in> set cs')"
      using next_firing_only_from_backup [OF cs] by blast
    with cs show "(\<exists>cs. chats_file w' = Some cs \<and> c \<notin> set cs) \<and>
         (\<forall>env' reminder' poll'.
            c \<in> fst ` set (attempts (snd (send_reminder env' reminder' w'))) \<or>
            c \<in> fst ` set (attempts (snd (send_poll env' poll' w'))) \<longrightarrow>
            sheets_ready env' \<and> (\<exists>cs'. restore_chats env' = RestoreTrue (Some cs') \<and> c \<in> set cs'))"
      by blast
  qed
  from c1 c2 c3 c4 show ?thesis by (intro conjI)
qed

lemma fanout_blocked_example:
  "fanout_reminder env_blocked [7, 8] tally0 =
     \<lparr>total_sent = 1, total_failed = 1, blocked_chats = [7], attempts = [(7, Html), (8, Html)]\<rparr>"
  by (simp add: deliver_reminder_def env_simps tally0_def blocked_text_example)

lemma reminder_daily_type: "dget reminder_daily_example ''type'' = PStr ''daily''"
  by (simp add: dget_def reminder_daily_example_def)

lemma send_reminder_blocked_example:
  "send_reminder env_blocked reminder_daily_example world_example =
     (\<lparr>chats_file = Some [8], reminders_store = [reminder_daily_example],
       polls_store = [poll_daily_example]\<rparr>,
      \<lparr>total_sent = 1, total_failed = 1, blocked_chats = [7], attempts = [(7, Html), (8, Html)]\<rparr>)"
proof -
  have l: "load_chats env_blocked (chats_file world_example) = (Some [7, 8], Some [7, 8])"
    by (simp add: world_example_def load_chats_nonempty)
  have "send_reminder env_blocked reminder_daily_example world_example =
     (world_example\<lparr>chats_file := remove_blocked_reminder [7, 8] [7] (Some [7, 8])\<rparr>,
      fanout_reminder env_blocked [7, 8] tally0)"
    unfolding send_reminder_def l using fanout_blocked_example reminder_daily_type
    by (simp del: fanout_reminder.simps add: Let_def)
  then show ?thesis
    by (simp only: fanout_blocked_example remove_blocked_reminder_eq) (simp add: world_example_def)
qed

lemma blocked_subscriber_removed_locally_example:
  "load_chats env_blocked (chats_file world_example) = (Some [7, 8], Some [7, 8]) \<and>
   gateway env_blocked 7 Html = Some ''Forbidden: bot was blocked by the user'' \<and>
   is_blocked_error ''Forbidden: bot was blocked by the user'' \<and>
   7 \<in> set (blocked_chats (snd (send_reminder env_blocked reminder_daily_example world_example))) \<and>
   (7, Plain) \<notin> set (attempts (snd (send_reminder env_blocked reminder_daily_example world_example))) \<and>
   (\<exists>cs. chats_file (fst (send_reminder env_blocked reminder_daily_example world_example)) = Some cs \<and>
         7 \<notin> set cs) \<and>
   chats_file (fst (send_reminder env_blocked reminder_daily_example world_example)) = Some [8]"
proof -
  have l: "load_chats env_blocked (chats_file world_example) = (Some [7, 8], Some [7, 8])"
    by (simp add: world_example_def load_chats_nonempty)
  have m: "(7::int) \<in> set [7, 8]" by simp
  have g: "gateway env_blocked 7 Html = Some ''Forbidden: bot was blocked by the user''"
    by (simp add: env_simps)
  note t = blocked_subscriber_removed_locally [OF l m, of reminder_daily_example poll_daily_example]
  from t g blocked_text_example
  have a: "7 \<in> set (blocked_chats (snd (send_reminder env_blocked reminder_daily_example world_example))) \<and>
   (7, Plain) \<notin> set (attempts (snd (send_reminder env_blocked reminder_daily_example world_example)))"
    by blast
  from t a have b: "\<exists>cs. chats_file (fst (send_reminder env_blocked reminder_daily_example world_example)) = Some cs \<and>
         7 \<notin> set cs"
    by (metis prod.collapse)
  have c: "chats_file (fst (send_reminder env_blocked reminder_daily_example world_example)) = Some [8]"
    by (simp add: send_reminder_blocked_example)
  from l g blocked_text_example a b c show ?thesis by blast
qed

text \<open>
  The removal block of \<^verbatim>\<open>send_reminder\<close> never pushes the removal to the backup store:
  every \<^verbatim>\<open>unsubscribe_user\<close> call comes after the filtered list was saved, finds the chat
  gone and returns before its synchronisation. The block of \<^verbatim>\<open>send_poll\<close> pushes it.
\<close>

lemma unsubscribe_all_syncs_absent:
  "set bs \<inter> set cs = {} \<Longrightarrow> unsubscribe_all_syncs env bs (Some cs) = 0"
  by (induction bs) (simp_all add: unsubscribe_absent unsubscribe_user_syncs_def)

lemma syncs_reminder_never: "syncs_reminder env chats blocked = 0"
proof -
  have "set blocked \<inter> set (filter (\<lambda>cid. cid \<notin> set blocked) chats) = {}" by auto
  then show ?thesis by (simp add: syncs_reminder_def unsubscribe_all_syncs_absent)
qed

lemma syncs_poll_ready: "blocked \<noteq> [] \<Longrightarrow> sheets_ready env \<Longrightarrow> syncs_poll env blocked = 1"
  by (simp add: syncs_poll_def)

text \<open>
  The fourth blocking text is looked for with its prefix and in lower case. An error text
  without the prefix, such as \<^verbatim>\<open>Chat not found\<close>, is not matched: the chat gets the
  plain-text attempt and is not put on the removal list.
\<close>

lemma chat_not_found_not_matched:
  "is_blocked_error ''Bad Request: chat not found'' \<and> \<not> is_blocked_error ''Chat not found'' \<and>
   deliver_reminder
     \<lparr>gateway = (\<lambda>c f. Some ''Chat not found''), sheets_ready = True,
      restore_chats = RestoreFalse, sent_time = []\<rparr> 7 tally0 =
     \<lparr>total_sent = 0, total_failed = 1, blocked_chats = [], attempts = [(7, Html), (7, Plain)]\<rparr>"
  by (simp add: is_blocked_error_def deliver_reminder_def tally0_def)

text \<open>
  C4. A subscriber put on the removal list is sent to again by the next firing. Chat 7,
  the only subscriber, has blocked the bot, and the Sheets manager is initialised. The
  firing of a daily reminder makes one attempt for chat 7, puts it on the removal list
  and saves the empty list; its removal block makes no synchronisation call, where the
  block of \<^verbatim>\<open>send_poll\<close> makes one, so the backup store still names chat 7. The next
  firing finds the empty list, restores the list from the backup, iterates chat 7 and
  sends to it again.
\<close>

theorem blocked_subscriber_sent_again:
  "gateway env_blocked 7 Html = Some ''Forbidden: bot was blocked by the user'' \<and>
   is_blocked_error ''Forbidden: bot was blocked by the user'' \<and>
   sheets_ready env_blocked \<and>
   send_reminder env_blocked reminder_daily_example
     \<lparr>chats_file = Some [7], reminders_store = [reminder_daily_example], polls_store = []\<rparr> =
     (\<lparr>chats_file = Some [], reminders_store = [reminder_daily_example], polls_store = []\<rparr>,
      \<lparr>total_sent = 0, total_failed = 1, blocked_chats = [7], attempts = [(7, Html)]\<rparr>) \<and>
   syncs_reminder env_blocked [7] [7] = 0 \<and>
   syncs_poll env_blocked [7] = 1 \<and>
   restore_chats env_blocked = RestoreTrue (Some [7]) \<and>
   load_chats env_blocked (Some []) = (Some [7], Some [7]) \<and>
   attempts (snd (send_reminder env_blocked reminder_daily_example
     \<lparr>chats_file = Some [], reminders_store = [reminder_daily_example], polls_store = []\<rparr>))
     = [(7, Html)]"
proof -
  have d: "deliver_reminder env_blocked 7 tally0 =
     \<lparr>total_sent = 0, total_failed = 1, blocked_chats = [7], attempts = [(7, Html)]\<rparr>"
    by (simp add: deliver_reminder_def env_simps tally0_def blocked_text_example)
  have first: "send_reminder env_blocked reminder_daily_example
     \<lparr>chats_file = Some [7], reminders_store = [reminder_daily_example], polls_store = []\<rparr> =
     (\<lparr>chats_file = Some [], reminders_store = [reminder_daily_example], polls_store = []\<rparr>,
      \<lparr>total_sent = 0, total_failed = 1, blocked_chats = [7], attempts = [(7, Html)]\<rparr>)"
    by (simp add: send_reminder_def load_chats_nonempty d reminder_daily_type remove_blocked_reminder_eq)
  have l: "load_chats env_blocked (Some []) = (Some [7], Some [7])"
    by (simp add: load_chats_def ensure_subscribed_chats_file_def env_simps)
  have second: "attempts (snd (send_reminder env_blocked reminder_daily_example
     \<lparr>chats_file = Some [], reminders_store = [reminder_daily_example], polls_store = []\<rparr>))
     = [(7, Html)]"
    by (simp add: send_reminder_def l d reminder_daily_type)
  have syncs: "syncs_reminder env_blocked [7] [7] = 0" "syncs_poll env_blocked [7] = 1"
    by (simp_all add: syncs_reminder_never syncs_poll_ready env_simps)
  from first second l syncs show ?thesis
    by (simp add: env_simps blocked_text_example)
qed

subsection \<open>Reconciliation\<close>

text \<open>Rescheduling one collection does not touch the jobs of the other.\<close>

lemma prefixes_differ: "prefix ''reminder_'' n \<Longrightarrow> prefix ''poll_'' n \<Longrightarrow> False"
  by (auto simp: prefix_def)

lemma rjobs_cancel_poll_prefix: "rjobs (cancel_prefix ''poll_'' q) = rjobs q"
  by (induction q) (auto simp: rjobs_def cancel_prefix_def dest: prefixes_differ)

lemma pjobs_cancel_reminder_prefix: "pjobs (cancel_prefix ''reminder_'' q) = pjobs q"
  by (induction q) (auto simp: pjobs_def cancel_prefix_def dest: prefixes_differ)

lemma rjobs_schedule_poll: "rjobs (schedule_poll lib now p q) = rjobs q"
proof -
  have "rjobs (new_poll_jobs lib now p) = []"
    unfolding rjobs_def filter_empty_conv
    using new_poll_jobs_prefix prefixes_differ by blast
  moreover have "cancel_named (poll_job_name p) (rjobs q) = rjobs q"
    unfolding cancel_named_def rjobs_def
    by (rule filter_True) (use poll_name_prefix(1) [of p] prefixes_differ in auto)
  ultimately show ?thesis
    by (simp add: schedule_poll_eq rjobs_append rjobs_cancel_named)
qed

lemma pjobs_schedule_reminder: "pjobs (schedule_reminder lib now r q) = pjobs q"
proof -
  have "pjobs (new_reminder_jobs lib now r) = []"
    unfolding pjobs_def filter_empty_conv
    using new_reminder_jobs_prefix prefixes_differ by blast
  moreover have "cancel_named (reminder_job_name r) (pjobs q) = pjobs q"
    unfolding cancel_named_def pjobs_def
    by (rule filter_True) (use reminder_name_prefix [of r] prefixes_differ in auto)
  ultimately show ?thesis
    by (simp add: schedule_reminder_eq pjobs_append pjobs_cancel_named)
qed

lemma rjobs_schedule_all_polls: "rjobs (schedule_all_polls lib now ps q) = rjobs q"
  by (induction ps arbitrary: q) (simp_all add: rjobs_schedule_poll)

lemma pjobs_schedule_all_reminders: "pjobs (schedule_all_reminders lib now rs q) = pjobs q"
  by (induction rs arbitrary: q) (simp_all add: pjobs_schedule_reminder)

lemma rjobs_reschedule_all_polls: "rjobs (reschedule_all_polls lib now ps q) = rjobs q"
  by (simp add: reschedule_all_polls_def rjobs_schedule_all_polls rjobs_cancel_poll_prefix)

lemma pjobs_reschedule_all_reminders: "pjobs (reschedule_all_reminders lib now rs q) = pjobs q"
  by (simp add: reschedule_all_reminders_def pjobs_schedule_all_reminders pjobs_cancel_reminder_prefix)

lemma restore_fails_cases:
  "restore_fails b \<Longrightarrow> restore_from_sheets b local = Inl OtherError \<or> restore_from_sheets b local = Inr (False, local)"
  by (cases b) (simp_all add: restore_fails_def restore_from_sheets_def)

lemma restore_from_sheets_cases:
  "restore_from_sheets b local = Inl OtherError \<or> restore_from_sheets b local = Inr (False, local) \<or>
   (\<exists>rows. restore_from_sheets b local = Inr (True, rows))"
  by (cases b) (simp_all add: restore_from_sheets_def)

lemma restore_reminders_frame_reminders:
  assumes "restore_fails (reminders_backup env) \<or> \<not> sheets_up env"
  shows "reminders_store (fst (restore_reminders lib now env (w, q))) = reminders_store w"
    and "rjobs (snd (restore_reminders lib now env (w, q))) = rjobs q"
proof -
  let ?w0 = "case chats_restore env of RestoreTrue f \<Rightarrow> w\<lparr>chats_file := f\<rparr> | _ \<Rightarrow> w"
  have w0: "reminders_store ?w0 = reminders_store w" "polls_store ?w0 = polls_store w"
    by (simp_all split: restore_outcome.split)
  show "reminders_store (fst (restore_reminders lib now env (w, q))) = reminders_store w"
    using assms restore_fails_cases [of "reminders_backup env" "reminders_store ?w0"]
      restore_from_sheets_cases [of "polls_backup env" "polls_store w"] w0
    by (auto simp: restore_reminders_def Let_def)
  show "rjobs (snd (restore_reminders lib now env (w, q))) = rjobs q"
    using assms restore_fails_cases [of "reminders_backup env" "reminders_store ?w0"]
      restore_from_sheets_cases [of "polls_backup env" "polls_store w"] w0
    by (auto simp: restore_reminders_def Let_def rjobs_reschedule_all_polls)
qed

lemma restore_reminders_frame_polls:
  assumes "restore_fails (polls_backup env) \<or> \<not> sheets_up env"
  shows "polls_store (fst (restore_reminders lib now env (w, q))) = polls_store w"
    and "pjobs (snd (restore_reminders lib now env (w, q))) = pjobs q"
proof -
  let ?w0 = "case chats_restore env of RestoreTrue f \<Rightarrow> w\<lparr>chats_file := f\<rparr> | _ \<Rightarrow> w"
  have w0: "reminders_store ?w0 = reminders_store w" "polls_store ?w0 = polls_store w"
    by (simp_all split: restore_outcome.split)
  show "polls_store (fst (restore_reminders lib now env (w, q))) = polls_store w"
    using assms restore_fails_cases [of "polls_backup env" "polls_store w"]
      restore_from_sheets_cases [of "reminders_backup env" "reminders_store w"] w0
    by (auto simp: restore_reminders_def Let_def)
  show "pjobs (snd (restore_reminders lib now env (w, q))) = pjobs q"
    using assms restore_fails_cases [of "polls_backup env" "polls_store w"]
      restore_from_sheets_cases [of "reminders_backup env" "reminders_store w"] w0
    by (auto simp: restore_reminders_def Let_def pjobs_reschedule_all_reminders)
qed

lemma restore_polls_frame:
  assumes "restore_fails (polls_backup env) \<or> \<not> sheets_up env"
  shows "restore_polls lib now env (w, q) = (w, q)"
  using assms restore_fails_cases [of "polls_backup env" "polls_store w"]
  by (auto simp: restore_polls_def Let_def)

lemma auto_sync_frame:
  "restore_fails (reminders_backup env) \<or> \<not> sheets_up env \<Longrightarrow> auto_sync_reminders lib now env (w, q) = (w, q)"
  "restore_fails (polls_backup env) \<or> \<not> sheets_up env \<Longrightarrow> auto_sync_polls lib now env (w, q) = (w, q)"
  using restore_fails_cases [of "reminders_backup env" "reminders_store w"]
    restore_fails_cases [of "polls_backup env" "polls_store w"]
  by (auto simp: auto_sync_reminders_def auto_sync_polls_def Let_def)

lemma ensure_file_frame:
  "restore_fails (polls_backup env) \<or> \<not> sheets_up env \<Longrightarrow> snd (ensure_polls_file env ps) = ps"
  "restore_fails (reminders_backup env) \<or> \<not> sheets_up env \<Longrightarrow> snd (ensure_reminders_file env rs) = rs"
  using restore_fails_cases [of "polls_backup env" ps]
    restore_fails_cases [of "reminders_backup env" rs]
  by (auto simp: ensure_polls_file_def ensure_reminders_file_def Let_def)

text \<open>
  C7. When the restore of a collection fails (the backup store cannot be reached, the
  restore reports failure, or there is no Sheets manager), the \<^verbatim>\<open>/restore\<close> handler leaves
  that collection of the local store and the live jobs of that collection as they were,
  whatever happens to the other collection; the single-collection handler, the periodic
  syncs and the startup checks leave the collection, and the queue where they have one,
  unchanged. So the jobs of a collection change only when its restore succeeded. The
  chats file, which has no jobs, is likewise kept when its restore fails.
\<close>

theorem failed_restore_leaves_store_and_jobs:
  "(restore_fails (reminders_backup env) \<or> \<not> sheets_up env \<longrightarrow>
      reminders_store (fst (restore_reminders lib now env (w, q))) = reminders_store w \<and>
      rjobs (snd (restore_reminders lib now env (w, q))) = rjobs q \<and>
      auto_sync_reminders lib now env (w, q) = (w, q) \<and>
      snd (ensure_reminders_file env (reminders_store w)) = reminders_store w) \<and>
   (restore_fails (polls_backup env) \<or> \<not> sheets_up env \<longrightarrow>
      polls_store (fst (restore_reminders lib now env (w, q))) = polls_store w \<and>
      pjobs (snd (restore_reminders lib now env (w, q))) = pjobs q \<and>
      restore_polls lib now env (w, q) = (w, q) \<and>
      auto_sync_polls lib now env (w, q) = (w, q) \<and>
      snd (ensure_polls_file env (polls_store w)) = polls_store w) \<and>
   (rjobs (snd (restore_reminders lib now env (w, q))) \<noteq> rjobs q \<longrightarrow>
      sheets_up env \<and> (\<exists>rows. reminders_backup env = Rows rows)) \<and>
   (pjobs (snd (restore_reminders lib now env (w, q))) \<noteq> pjobs q \<longrightarrow>
      sheets_up env \<and> (\<exists>rows. polls_backup env = Rows rows)) \<and>
   (chats_restore env = RestoreFalse \<or> chats_restore env = RestoreRaises \<or> \<not> sheets_up env \<longrightarrow>
      chats_file (fst (restore_reminders lib now env (w, q))) = chats_file w)"
proof -
  have r: "restore_fails (reminders_backup env) \<or> \<not> sheets_up env \<longrightarrow>
      reminders_store (fst (restore_reminders lib now env (w, q))) = reminders_store w \<and>
      rjobs (snd (restore_reminders lib now env (w, q))) = rjobs q \<and>
      auto_sync_reminders lib now env (w, q) = (w, q) \<and>
      snd (ensure_reminders_file env (reminders_store w)) = reminders_store w"
    using restore_reminders_frame_reminders [of env lib now w q] auto_sync_frame(1) [of env lib now w q]
      ensure_file_frame(2) [of env "reminders_store w"]
    by blast
  have p: "restore_fails (polls_backup env) \<or> \<not> sheets_up env \<longrightarrow>
      polls_store (fst (restore_reminders lib now env (w, q))) = polls_store w \<and>
      pjobs (snd (restore_reminders lib now env (w, q))) = pjobs q \<and>
      restore_polls lib now env (w, q) = (w, q) \<and>
      auto_sync_polls lib now env (w, q) = (w, q) \<and>
      snd (ensure_polls_file env (polls_store w)) = polls_store w"
    using restore_reminders_frame_polls [of env lib now w q] restore_polls_frame [of env lib now w q]
      auto_sync_frame(2) [of env lib now w q] ensure_file_frame(1) [of env "polls_store w"]
    by blast
  have f: "restore_fails b \<or> (\<exists>rows. b = Rows rows)" for b
    by (cases b) (simp_all add: restore_fails_def)
  from r f [of "reminders_backup env"]
  have r': "rjobs (snd (restore_reminders lib now env (w, q))) \<noteq> rjobs q \<longrightarrow>
      sheets_up env \<and> (\<exists>rows. reminders_backup env = Rows rows)" by blast
  from p f [of "polls_backup env"]
  have p': "pjobs (snd (restore_reminders lib now env (w, q))) \<noteq> pjobs q \<longrightarrow>
      sheets_up env \<and> (\<exists>rows. polls_backup env = Rows rows)" by blast
  have c: "chats_restore env = RestoreFalse \<or> chats_restore env = RestoreRaises \<or> \<not> sheets_up env \<longrightarrow>
      chats_file (fst (restore_reminders lib now env (w, q))) = chats_file w"
    using restore_from_sheets_cases [of "reminders_backup env" "reminders_store w"]
      restore_from_sheets_cases [of "polls_backup env" "polls_store w"]
    by (auto simp: restore_reminders_def Let_def)
  from r p r' p' c show ?thesis by (intro conjI)
qed

lemma restore_reminders_example:
  "restore_reminders lib_example now_example env_partial (world_example, queue_example) =
     (world_example,
      [\<lparr>jname = ''ping_self'', jcallback = OtherCallback, jtrigger = RunOnce 0, jcontext = []\<rparr>,
       \<lparr>jname = ''reminder_2'', jcallback = SendReminder, jtrigger = RunDaily 5 0 every_day,
         jcontext = reminder_deleted_example\<rparr>,
       \<lparr>jname = ''poll_4'', jcallback = SendPoll, jtrigger = RunDaily 6 30 every_day,
         jcontext = poll_daily_example\<rparr>])"
proof -
  have "reschedule_all_polls lib_example now_example [poll_daily_example] queue_example =
      [\<lparr>jname = ''ping_self'', jcallback = OtherCallback, jtrigger = RunOnce 0, jcontext = []\<rparr>,
       \<lparr>jname = ''reminder_2'', jcallback = SendReminder, jtrigger = RunDaily 5 0 every_day,
         jcontext = reminder_deleted_example\<rparr>,
       \<lparr>jname = ''poll_4'', jcallback = SendPoll, jtrigger = RunDaily 6 30 every_day,
         jcontext = poll_daily_example\<rparr>]"
    by (simp add: reschedule_all_polls_def schedule_poll_def plan_poll_daily_example names_example
        status_example cancel_prefix_def cancel_named_def queue_example_def)
  then show ?thesis
    by (simp add: restore_reminders_def env_partial_def restore_from_sheets_def world_example_def)
qed

theorem failed_restore_leaves_store_and_jobs_witness:
  "restore_fails (reminders_backup env_partial) \<and>
   reminders_store (fst (restore_reminders lib_example now_example env_partial (world_example, queue_example)))
     = [reminder_daily_example] \<and>
   rjobs (snd (restore_reminders lib_example now_example env_partial (world_example, queue_example)))
     = [\<lparr>jname = ''reminder_2'', jcallback = SendReminder, jtrigger = RunDaily 5 0 every_day,
         jcontext = reminder_deleted_example\<rparr>] \<and>
   pjobs (snd (restore_reminders lib_example now_example env_partial (world_example, queue_example)))
     \<noteq> pjobs queue_example \<and>
   polls_backup env_partial = Rows [poll_daily_example]"
proof -
  have h: "restore_fails (reminders_backup env_partial)"
    by (simp add: env_partial_def restore_fails_def)
  have b: "polls_backup env_partial = Rows [poll_daily_example]"
    by (simp add: env_partial_def)
  have s: "reminders_store world_example = [reminder_daily_example]"
    by (simp add: world_example_def)
  have j: "rjobs queue_example =
      [\<lparr>jname = ''reminder_2'', jcallback = SendReminder, jtrigger = RunDaily 5 0 every_day,
         jcontext = reminder_deleted_example\<rparr>]"
    by (simp add: rjobs_def queue_example_def)
  have c: "pjobs (snd (restore_reminders lib_example now_example env_partial (world_example, queue_example)))
     \<noteq> pjobs queue_example"
    by (simp only: restore_reminders_example) (simp add: pjobs_def queue_example_def)
  show ?thesis
    using failed_restore_leaves_store_and_jobs [of env_partial lib_example now_example world_example queue_example]
      h b s j c
    by simp
qed

end
